theory Spec2Isabelle
  imports Complex_Main "HOL-Library.Sublist" "HOL-Library.Product_Lexorder" "HOL-Library.Multiset"
begin

section \<open>Python values shared by the models\<close>

text \<open>
  Python floats and ints are modelled by exact rationals; the rounding of floating
  point is not modelled. A float given to the program is its exact value: the literal
  38.1 is the double 5362098306337997 / 2^47, and the difference of that double and 38
  is computed without rounding by Python and here alike. Python strings are byte lists
  (UTF-8), so the warning
  sign U+26A0 U+FE0F of the source literals is six bytes. An exception is a value of
  \<open>py_error\<close>: a call that raises returns \<open>Inl\<close> of it, and where the caller goes
  on after the raise, the state that the raise left as well.
\<close>

datatype py_error = TypeError | ValueError | KeyError | RuntimeError

text \<open>
  The values stored in a \<open>details\<close> dictionary. Python's \<open>True\<close> is the integer 1
  (\<open>bool\<close> is a subclass of \<open>int\<close>), so it is stored as \<open>PNum 1\<close>; with that,
  equality of \<open>pyval\<close> is Python's \<open>==\<close> on these values.
\<close>

datatype pyval = PNone | PNum rat | PStr string

definition py_True :: pyval where
  "py_True = PNum 1"

definition warning_sign :: string where
  "warning_sign = [CHR 0xE2, CHR 0x9A, CHR 0xA0, CHR 0xEF, CHR 0xB8, CHR 0x8F]"

text \<open>\<open>d.get(k, default)\<close>\<close>

definition dict_get :: "('k \<rightharpoonup> 'v) \<Rightarrow> 'k \<Rightarrow> 'v \<Rightarrow> 'v" where
  "dict_get d k dflt = (case d k of None \<Rightarrow> dflt | Some v \<Rightarrow> v)"

text \<open>A value used as a number in \<open><\<close>, \<open><=\<close> or \<open>-\<close>; anything else raises TypeError.\<close>

definition as_num :: "pyval \<Rightarrow> py_error + rat" where
  "as_num v = (case v of PNum x \<Rightarrow> Inr x | _ \<Rightarrow> Inl TypeError)"

section \<open>models/constraints.py\<close>

datatype ConstraintType =
    LEGAL | AVAILABILITY | SKILL | HOURS_MAX | REST_PERIOD | CONSECUTIVE_DAYS | MIN_STAFF
  | PREFERENCE | HOURS_MIN | COST | COVERAGE | FAIRNESS

record Violation =
  constraint_type :: ConstraintType
  severity :: int
  description :: string
  affected_entity :: string
  affected_date :: "int option"
  details :: "string \<rightharpoonup> pyval"
  suggestions :: "string list"

definition is_hard_constraint :: "Violation \<Rightarrow> bool" where
  "is_hard_constraint v =
     (constraint_type v \<in> {LEGAL, AVAILABILITY, SKILL, HOURS_MAX, REST_PERIOD,
                            CONSECUTIVE_DAYS, MIN_STAFF})"

record ComplianceResult =
  is_compliant :: bool
  violations :: "Violation list"
  warnings :: "Violation list"
  pending_approvals :: "Violation list"
  score :: rat

text \<open>\<open>ComplianceResult(is_compliant=True)\<close>: the other fields take their defaults.\<close>

definition new_result :: ComplianceResult where
  "new_result = \<lparr>is_compliant = True, violations = [], warnings = [],
                  pending_approvals = [], score = 100\<rparr>"

definition is_informational_warning :: "Violation \<Rightarrow> py_error + bool" where
  "is_informational_warning v =
     (if details v ''alert_type'' = Some (PStr ''approaching_limit'') then Inr True
      else
        (case (if constraint_type v = FAIRNESS
               then (case as_num (dict_get (details v) ''gini_coefficient'' (PNum 0)) of
                       Inl e \<Rightarrow> Inl e
                     | Inr gini \<Rightarrow> Inr (gini < 4 / 10))
               else Inr False) of
           Inl e \<Rightarrow> Inl e
         | Inr True \<Rightarrow> Inr True
         | Inr False \<Rightarrow>
             (if constraint_type v = COVERAGE
              then (case as_num (dict_get (details v) ''current_coverage'' (PNum 0)) of
                      Inl e \<Rightarrow> Inl e
                    | Inr current \<Rightarrow>
                        (case as_num (dict_get (details v) ''required_coverage'' (PNum 0)) of
                           Inl e \<Rightarrow> Inl e
                         | Inr required \<Rightarrow>
                             (let shortfall = required - current
                              in Inr (shortfall \<le> 1 \<and>
                                      dict_get (details v) ''peak_type'' PNone = PNone))))
              else Inr False)))"

definition weights :: "ConstraintType \<rightharpoonup> rat" where
  "weights = [COVERAGE \<mapsto> 8 / 10, HOURS_MIN \<mapsto> 5 / 10, FAIRNESS \<mapsto> 3 / 10,
              PREFERENCE \<mapsto> 2 / 10, COST \<mapsto> 4 / 10]"

definition calculate_soft_penalty :: "Violation \<Rightarrow> py_error + rat" where
  "calculate_soft_penalty v =
     (case is_informational_warning v of
        Inl e \<Rightarrow> Inl e
      | Inr True \<Rightarrow> Inr 0
      | Inr False \<Rightarrow>
          (let base_penalty = of_int (severity v) * (5 / 100);
               multiplier = dict_get weights (constraint_type v) (5 / 10);
               penalty = base_penalty * multiplier
           in Inr (min penalty (5 / 10))))"

definition add_violation :: "ComplianceResult \<Rightarrow> Violation \<Rightarrow> py_error + ComplianceResult" where
  "add_violation r v =
     (if is_hard_constraint v
      then Inr (r\<lparr>violations := violations r @ [v],
                  is_compliant := False,
                  score := max 0 (score r - of_int (severity v) * 2)\<rparr>)
      else (case calculate_soft_penalty v of
              Inl e \<Rightarrow> Inl e
            | Inr penalty \<Rightarrow>
                Inr (r\<lparr>warnings := warnings r @ [v],
                       score := max 0 (score r - penalty)\<rparr>)))"

text \<open>
  \<open>escalate_to_manager\<close> updates the violation object in place, and the lists of a
  result hold references to objects: one object may stand in a list twice, and two
  different objects may be equal. \<open>add_violation\<close> above only appends the object it is
  given, so there a list is modelled by the values of its objects. For
  \<open>escalate_to_manager\<close> the objects live in a heap that gives the current value of
  each reference, and the result holds lists of references. Each violation has its own
  \<open>details\<close> dictionary and \<open>suggestions\<close> list, as those of the dataclass defaults
  and of every violation built by the validator are.
\<close>

type_synonym ref = nat

type_synonym heap = "ref \<Rightarrow> Violation"

record ResultRefs =
  is_compliant_r :: bool
  violations_r :: "ref list"
  warnings_r :: "ref list"
  pending_approvals_r :: "ref list"
  score_r :: rat

text \<open>
  \<open>x in xs\<close> and \<open>xs.remove(x)\<close> match an entry that is the object \<open>x\<close> itself or
  equals it under the dataclass \<open>==\<close>, which compares the fields; \<open>remove\<close> deletes
  the first entry that matches and raises ValueError when none does.
\<close>

definition matches :: "heap \<Rightarrow> ref \<Rightarrow> ref \<Rightarrow> bool" where
  "matches hp v x = (x = v \<or> hp x = hp v)"

fun remove_ref :: "heap \<Rightarrow> ref \<Rightarrow> ref list \<Rightarrow> py_error + ref list" where
  "remove_ref hp v [] = Inl ValueError"
| "remove_ref hp v (x # xs) =
     (if matches hp v x then Inr xs
      else (case remove_ref hp v xs of Inl e \<Rightarrow> Inl e | Inr ys \<Rightarrow> Inr (x # ys)))"

text \<open>The three updates of the violation object, in the order of the source.\<close>

definition escalated :: "Violation \<Rightarrow> string \<Rightarrow> Violation" where
  "escalated v reason =
     v\<lparr>details := (details v)(''escalation_reason'' \<mapsto> PStr reason,
                                ''requires_manager_approval'' \<mapsto> py_True),
       suggestions := (warning_sign @ '' MANAGER APPROVAL REQUIRED: '' @ reason) # suggestions v\<rparr>"

definition escalate_to_manager :: "heap \<Rightarrow> ResultRefs \<Rightarrow> ref \<Rightarrow> string
                                   \<Rightarrow> py_error + heap \<times> ResultRefs" where
  "escalate_to_manager hp r v reason =
     (if list_ex (matches hp v) (violations_r r)
      then (case remove_ref hp v (violations_r r) of
              Inl e \<Rightarrow> Inl e
            | Inr vs \<Rightarrow>
                (let hp1 = hp(v := escalated (hp v) reason);
                     ps = pending_approvals_r r @ [v];
                     s1 = min 100 (score_r r + of_int (severity (hp1 v)) * 2);
                     s2 = max 0 (s1 - of_int (severity (hp1 v)) * (5 / 10))
                 in Inr (hp1, r\<lparr>violations_r := vs,
                                 pending_approvals_r := ps,
                                 is_compliant_r := (length vs = 0),
                                 score_r := s2\<rparr>)))
      else Inr (hp, r))"

section \<open>models/employee.py\<close>

datatype EmployeeType = FULL_TIME | PART_TIME | CASUAL

datatype Station = KITCHEN | COUNTER | MCCAFE | DESSERT

fun EmployeeType_value :: "EmployeeType \<Rightarrow> string" where
  "EmployeeType_value FULL_TIME = ''Full-Time''"
| "EmployeeType_value PART_TIME = ''Part-Time''"
| "EmployeeType_value CASUAL = ''Casual''"

fun Station_value :: "Station \<Rightarrow> string" where
  "Station_value KITCHEN = ''Kitchen''"
| "Station_value COUNTER = ''Counter''"
| "Station_value MCCAFE = ''Multi-Station McCafe''"
| "Station_value DESSERT = ''Dessert Station''"

text \<open>
  A date is its proleptic ordinal (\<open>date.toordinal()\<close>), so that the difference of two
  dates in days is the difference of the integers. The record is the object after
  \<open>__post_init__\<close> has run.
\<close>

record Employee =
  emp_id :: string
  emp_name :: string
  employee_type :: EmployeeType
  primary_station :: Station
  availability :: "int \<rightharpoonup> string list"
  skills :: "Station set"
  weekly_hours_target :: "rat \<times> rat"
  current_week_hours :: rat

fun get_hours_target :: "EmployeeType \<Rightarrow> rat \<times> rat" where
  "get_hours_target FULL_TIME = (35, 38)"
| "get_hours_target PART_TIME = (20, 32)"
| "get_hours_target CASUAL = (8, 24)"

definition post_init :: "Employee \<Rightarrow> Employee" where
  "post_init e =
     (let e1 = e\<lparr>skills := insert (primary_station e) (skills e)\<rparr>
      in if weekly_hours_target e1 = (0, 0)
         then e1\<lparr>weekly_hours_target := get_hours_target (employee_type e1)\<rparr>
         else e1)"

definition is_available :: "Employee \<Rightarrow> int \<Rightarrow> string \<Rightarrow> bool" where
  "is_available e target_date shift_code =
     (case availability e target_date of
        None \<Rightarrow> False
      | Some available_shifts \<Rightarrow>
          if ''/'' \<in> set available_shifts \<or> available_shifts = [] then False
          else shift_code \<in> set available_shifts)"

definition can_work_station :: "Employee \<Rightarrow> Station \<Rightarrow> bool" where
  "can_work_station e st = (st \<in> skills e)"

text \<open>\<open>Employee.__eq__\<close>: two employees are equal when their ids are.\<close>

definition employee_eq :: "Employee \<Rightarrow> Employee \<Rightarrow> bool" where
  "employee_eq a b = (emp_id a = emp_id b)"

section \<open>models/shift.py\<close>

datatype ShiftType = FIRST_HALF | SECOND_HALF | FULL_DAY | DAY_SHIFT | SHIFT_CHANGE | MEETING

fun ShiftType_value :: "ShiftType \<Rightarrow> string" where
  "ShiftType_value FIRST_HALF = ''1F''"
| "ShiftType_value SECOND_HALF = ''2F''"
| "ShiftType_value FULL_DAY = ''3F''"
| "ShiftType_value DAY_SHIFT = ''S''"
| "ShiftType_value SHIFT_CHANGE = ''SC''"
| "ShiftType_value MEETING = ''M''"

text \<open>
  \<open>str.upper\<close> and \<open>str.strip\<close>, on the UTF-8 bytes of a string. \<open>upper\<close> maps the
  ASCII letters a to z and the long s (U+017F, bytes C5 BF, whose upper case is the
  ASCII letter S). Every other character is left as it is. That is what Python does
  for a character without an upper case. For each remaining character the upper case
  is SS (sharp s) or FF (the ligature U+FB00), or it has a character that occurs in no
  shift code; a text with such a character is, upper-cased, none of the shift codes in
  Python, and here it keeps the bytes of the character, so it is none of them either.
  On ASCII text \<open>upper\<close> is Python's.
\<close>

definition upper_char :: "char \<Rightarrow> char" where
  "upper_char c =
     (let n = (of_char c :: nat) in if 97 \<le> n \<and> n \<le> 122 then char_of (n - 32) else c)"

fun upper :: "string \<Rightarrow> string" where
  "upper [] = []"
| "upper [c] = [upper_char c]"
| "upper (c # d # cs) =
     (if c = CHR 0xC5 \<and> d = CHR 0xBF then CHR ''S'' # upper cs
      else upper_char c # upper (d # cs))"

text \<open>
  \<open>strip()\<close> removes from both ends the characters for which \<open>str.isspace\<close> holds:
  U+0009 to U+000D, U+001C to U+0020, U+0085, U+00A0, U+1680, U+2000 to U+200A,
  U+2028, U+2029, U+202F, U+205F and U+3000. \<open>space_codes\<close> lists their UTF-8
  encodings. A string starts with such a character when one of the encodings is a
  prefix of its bytes, and ends with one when the reversed encoding is a prefix of the
  reversed bytes.
\<close>

definition space_codes :: "string list" where
  "space_codes =
     [[CHR 0x09], [CHR 0x0A], [CHR 0x0B], [CHR 0x0C], [CHR 0x0D],
      [CHR 0x1C], [CHR 0x1D], [CHR 0x1E], [CHR 0x1F], [CHR 0x20],
      [CHR 0xC2, CHR 0x85], [CHR 0xC2, CHR 0xA0],
      [CHR 0xE1, CHR 0x9A, CHR 0x80],
      [CHR 0xE2, CHR 0x80, CHR 0x80], [CHR 0xE2, CHR 0x80, CHR 0x81],
      [CHR 0xE2, CHR 0x80, CHR 0x82], [CHR 0xE2, CHR 0x80, CHR 0x83],
      [CHR 0xE2, CHR 0x80, CHR 0x84], [CHR 0xE2, CHR 0x80, CHR 0x85],
      [CHR 0xE2, CHR 0x80, CHR 0x86], [CHR 0xE2, CHR 0x80, CHR 0x87],
      [CHR 0xE2, CHR 0x80, CHR 0x88], [CHR 0xE2, CHR 0x80, CHR 0x89],
      [CHR 0xE2, CHR 0x80, CHR 0x8A],
      [CHR 0xE2, CHR 0x80, CHR 0xA8], [CHR 0xE2, CHR 0x80, CHR 0xA9],
      [CHR 0xE2, CHR 0x80, CHR 0xAF],
      [CHR 0xE2, CHR 0x81, CHR 0x9F],
      [CHR 0xE3, CHR 0x80, CHR 0x80]]"

text \<open>The number of bytes of the whitespace character a string starts with, 0 if none.\<close>

definition leading_space :: "string list \<Rightarrow> string \<Rightarrow> nat" where
  "leading_space codes s =
     (case find (\<lambda>w. prefix w s) codes of None \<Rightarrow> 0 | Some w \<Rightarrow> length w)"

function lstrip :: "string list \<Rightarrow> string \<Rightarrow> string" where
  "lstrip codes s =
     (let n = leading_space codes s
      in if 0 < n \<and> s \<noteq> [] then lstrip codes (drop n s) else s)"
  by pat_completeness auto
termination
  by (relation "measure (\<lambda>(codes, s). length s)") auto

declare lstrip.simps [simp del]

definition strip :: "string \<Rightarrow> string" where
  "strip s = rev (lstrip (map rev space_codes) (rev (lstrip space_codes s)))"

definition ShiftType_from_code :: "string \<Rightarrow> ShiftType option" where
  "ShiftType_from_code code =
     map_of [(''1F'', FIRST_HALF), (''2F'', SECOND_HALF), (''3F'', FULL_DAY),
             (''S'', DAY_SHIFT), (''SC'', SHIFT_CHANGE), (''M'', MEETING)]
            (strip (upper code))"

text \<open>A \<open>datetime.time\<close> with zero seconds is (hour, minute), compared lexicographically.\<close>

type_synonym pytime = "nat \<times> nat"

record Shift =
  shift_type :: ShiftType
  date :: int
  start_time :: pytime
  end_time :: pytime
  hours :: rat
  break_minutes :: int

definition shift_configs :: "string \<rightharpoonup> (pytime \<times> pytime \<times> rat)" where
  "shift_configs =
     map_of [(''1F'', ((6, 30), (15, 30), 9)),
             (''2F'', ((14, 0), (23, 0), 9)),
             (''3F'', ((8, 0), (20, 0), 12)),
             (''S'', ((6, 30), (15, 0), 17 / 2)),
             (''SC'', ((11, 0), (20, 0), 9)),
             (''M'', ((9, 0), (17, 0), 8))]"

definition from_code :: "string \<Rightarrow> int \<Rightarrow> Shift option" where
  "from_code code shift_date =
     (if code \<in> set [''/'', ''NA'', []] then None
      else case shift_configs (strip (upper code)) of
             None \<Rightarrow> None
           | Some (st, et, h) \<Rightarrow>
               (case ShiftType_from_code code of
                  None \<Rightarrow> None
                | Some ty \<Rightarrow>
                    Some \<lparr>shift_type = ty, date = shift_date, start_time = st, end_time = et,
                          hours = h, break_minutes = (if h > 5 then 30 else 0)\<rparr>))"

text \<open>A \<open>datetime\<close> is (date, time); \<open>(b - a).total_seconds()\<close> is their distance in seconds.\<close>

type_synonym pydatetime = "int \<times> pytime"

definition get_end_datetime :: "Shift \<Rightarrow> pydatetime" where
  "get_end_datetime s = (date s, end_time s)"

definition get_start_datetime :: "Shift \<Rightarrow> pydatetime" where
  "get_start_datetime s = (date s, start_time s)"

definition seconds_of_day :: "pytime \<Rightarrow> int" where
  "seconds_of_day t = int (fst t) * 3600 + int (snd t) * 60"

definition total_seconds :: "pydatetime \<Rightarrow> pydatetime \<Rightarrow> rat" where
  "total_seconds b a =
     of_int ((fst b - fst a) * 86400 + (seconds_of_day (snd b) - seconds_of_day (snd a)))"

definition hours_until_next :: "Shift \<Rightarrow> Shift \<Rightarrow> rat" where
  "hours_until_next this next_shift =
     (let this_end = get_end_datetime this;
          next_start = get_start_datetime next_shift
      in total_seconds next_start this_end / 3600)"

section \<open>models/schedule.py\<close>

record Assignment =
  employee :: Employee
  shift :: Shift
  station :: Station
  is_locked :: bool
  a_notes :: string

text \<open>\<open>Assignment(employee=e, shift=sh, station=st)\<close>: the other fields take their defaults.\<close>

definition new_assignment :: "Employee \<Rightarrow> Shift \<Rightarrow> Station \<Rightarrow> Assignment" where
  "new_assignment e sh st = \<lparr>employee = e, shift = sh, station = st, is_locked = False, a_notes = []\<rparr>"

text \<open>
  The dataclass \<open>==\<close> of two assignments compares the fields in order; the employees
  are compared with \<open>Employee.__eq__\<close>, that is by id.
\<close>

definition assignment_eq :: "Assignment \<Rightarrow> Assignment \<Rightarrow> bool" where
  "assignment_eq a b =
     (employee_eq (employee a) (employee b) \<and> shift a = shift b \<and> station a = station b \<and>
      is_locked a = is_locked b \<and> a_notes a = a_notes b)"

text \<open>\<open>x in xs\<close> and \<open>xs.remove(x)\<close> (which raises ValueError when nothing is equal).\<close>

definition py_in :: "Assignment \<Rightarrow> Assignment list \<Rightarrow> bool" where
  "py_in a xs = list_ex (\<lambda>x. assignment_eq x a) xs"

fun py_remove :: "Assignment \<Rightarrow> Assignment list \<Rightarrow> py_error + Assignment list" where
  "py_remove a [] = Inl ValueError"
| "py_remove a (x # xs) =
     (if assignment_eq x a then Inr xs
      else case py_remove a xs of Inl e \<Rightarrow> Inl e | Inr ys \<Rightarrow> Inr (x # ys))"

text \<open>
  The three indexes are \<open>defaultdict(list)\<close>: reading a missing key with \<open>d[k]\<close> gives
  (and stores) the empty list, \<open>d.get(k, [])\<close> gives the empty list without storing.
\<close>

record Schedule =
  start_date :: int
  end_date :: int
  assignments :: "Assignment list"
  store_id :: string
  by_date :: "int \<rightharpoonup> Assignment list"
  by_employee :: "string \<rightharpoonup> Assignment list"
  by_station :: "Station \<rightharpoonup> Assignment list"

definition new_schedule :: "int \<Rightarrow> int \<Rightarrow> string \<Rightarrow> Schedule" where
  "new_schedule sd ed sid =
     \<lparr>start_date = sd, end_date = ed, assignments = [], store_id = sid,
      by_date = Map.empty, by_employee = Map.empty, by_station = Map.empty\<rparr>"

definition dd_append :: "('k \<rightharpoonup> Assignment list) \<Rightarrow> 'k \<Rightarrow> Assignment \<Rightarrow> ('k \<rightharpoonup> Assignment list)" where
  "dd_append d k a = d(k \<mapsto> dict_get d k [] @ [a])"

text \<open>
  \<open>d[k].remove(a)\<close>: reading \<open>d[k]\<close> stores the empty list under a missing key before
  \<open>remove\<close> raises. The result is the exception raised, if any, and the dictionary
  after the call.
\<close>

definition dd_remove :: "('k \<rightharpoonup> Assignment list) \<Rightarrow> 'k \<Rightarrow> Assignment
                         \<Rightarrow> py_error option \<times> ('k \<rightharpoonup> Assignment list)" where
  "dd_remove d k a =
     (let xs = dict_get d k []
      in case py_remove a xs of
           Inl e \<Rightarrow> (Some e, d(k \<mapsto> xs))
         | Inr ys \<Rightarrow> (None, d(k \<mapsto> ys)))"

definition add_assignment :: "Schedule \<Rightarrow> Assignment \<Rightarrow> Schedule" where
  "add_assignment s a =
     s\<lparr>assignments := assignments s @ [a],
       by_date := dd_append (by_date s) (date (shift a)) a,
       by_employee := dd_append (by_employee s) (emp_id (employee a)) a,
       by_station := dd_append (by_station s) (station a) a\<rparr>"

text \<open>
  \<open>remove_assignment\<close> gives the value returned (or the exception raised by one of the
  \<open>remove\<close> calls) and the schedule as the call leaves it: the fields are updated one
  after the other, so a raise leaves the earlier updates in place.
\<close>

definition remove_assignment :: "Schedule \<Rightarrow> Assignment \<Rightarrow> (py_error + bool) \<times> Schedule" where
  "remove_assignment s a =
     (if is_locked a then (Inr False, s)
      else if py_in a (assignments s)
      then (case py_remove a (assignments s) of
              Inl e \<Rightarrow> (Inl e, s)
            | Inr as' \<Rightarrow>
                (let s1 = s\<lparr>assignments := as'\<rparr>;
                     (r1, bd) = dd_remove (by_date s1) (date (shift a)) a;
                     s2 = s1\<lparr>by_date := bd\<rparr>
                 in case r1 of
                      Some e \<Rightarrow> (Inl e, s2)
                    | None \<Rightarrow>
                        (let (r2, be) = dd_remove (by_employee s2) (emp_id (employee a)) a;
                             s3 = s2\<lparr>by_employee := be\<rparr>
                         in case r2 of
                              Some e \<Rightarrow> (Inl e, s3)
                            | None \<Rightarrow>
                                (let (r3, bs) = dd_remove (by_station s3) (station a) a;
                                     s4 = s3\<lparr>by_station := bs\<rparr>
                                 in case r3 of
                                      Some e \<Rightarrow> (Inl e, s4)
                                    | None \<Rightarrow> (Inr True, s4)))))
      else (Inr False, s))"

definition get_assignments_by_date :: "Schedule \<Rightarrow> int \<Rightarrow> Assignment list" where
  "get_assignments_by_date s target_date = dict_get (by_date s) target_date []"

definition get_assignments_by_employee :: "Schedule \<Rightarrow> string \<Rightarrow> Assignment list" where
  "get_assignments_by_employee s employee_id = dict_get (by_employee s) employee_id []"

definition get_assignments_by_station :: "Schedule \<Rightarrow> Station \<Rightarrow> Assignment list" where
  "get_assignments_by_station s st = dict_get (by_station s) st []"

definition is_employee_assigned :: "Schedule \<Rightarrow> string \<Rightarrow> int \<Rightarrow> bool" where
  "is_employee_assigned s employee_id target_date =
     list_ex (\<lambda>a. date (shift a) = target_date) (get_assignments_by_employee s employee_id)"

section \<open>agents/compliance_validator.py\<close>

text \<open>
  The texts of a violation are built with f-strings. How Python renders a number, a
  date or a time as text belongs to the runtime, so the rendering functions are a
  parameter of the checks; \<open>Shift.__str__\<close> is the source's, over them.
\<close>

record text_fns =
  fmt_1f :: "rat \<Rightarrow> string"
  str_int :: "int \<Rightarrow> string"
  str_float :: "rat \<Rightarrow> string"
  str_date :: "int \<Rightarrow> string"
  strftime_date :: "int \<Rightarrow> string"
  strftime_time :: "pytime \<Rightarrow> string"

definition str_shift :: "text_fns \<Rightarrow> Shift \<Rightarrow> string" where
  "str_shift tf s =
     ShiftType_value (shift_type s) @ '' on '' @ strftime_date tf (date s) @ '': '' @
     strftime_time tf (start_time s) @ ''-'' @ strftime_time tf (end_time s) @
     '' ('' @ str_float tf (hours s) @ ''h)''"

text \<open>\<open>self.employees = {e.id: e for e in employees}\<close>: for a repeated id the last wins.\<close>

definition employees_dict :: "Employee list \<Rightarrow> (string \<rightharpoonup> Employee)" where
  "employees_dict es = foldl (\<lambda>m e. m(emp_id e \<mapsto> e)) Map.empty es"

definition get_week_number :: "Schedule option \<Rightarrow> int \<Rightarrow> int" where
  "get_week_number sched target_date =
     (case sched of
        None \<Rightarrow> 0
      | Some s \<Rightarrow> (let days_from_start = target_date - start_date s in days_from_start div 7))"

text \<open>
  \<open>params["hours_limits"]\<close> has an entry for each of the three employee types, so the
  default of the \<open>get\<close> is never taken.
\<close>

fun hours_limits :: "EmployeeType \<Rightarrow> int \<times> int" where
  "hours_limits FULL_TIME = (35, 38)"
| "hours_limits PART_TIME = (20, 32)"
| "hours_limits CASUAL = (8, 24)"

text \<open>
  A dictionary whose iteration order matters is an association list in insertion
  order. \<open>d[k] += x\<close> on a \<open>defaultdict(float)\<close>, and the nested form
  \<open>d[e][w] += x\<close>.
\<close>

fun dd_add :: "'k \<Rightarrow> rat \<Rightarrow> ('k \<times> rat) list \<Rightarrow> ('k \<times> rat) list" where
  "dd_add k x [] = [(k, 0 + x)]"
| "dd_add k x ((k', v) # rest) =
     (if k' = k then (k', v + x) # rest else (k', v) # dd_add k x rest)"

fun dd_add2 :: "'e \<Rightarrow> 'k \<Rightarrow> rat \<Rightarrow> ('e \<times> ('k \<times> rat) list) list \<Rightarrow> ('e \<times> ('k \<times> rat) list) list" where
  "dd_add2 e k x [] = [(e, dd_add k x [])]"
| "dd_add2 e k x ((e', ws) # rest) =
     (if e' = e then (e', dd_add k x ws) # rest else (e', ws) # dd_add2 e k x rest)"

definition employee_weekly_hours :: "Schedule \<Rightarrow> (string \<times> (int \<times> rat) list) list" where
  "employee_weekly_hours s =
     foldl (\<lambda>acc a. dd_add2 (emp_id (employee a))
                             (get_week_number (Some s) (date (shift a)))
                             (hours (shift a)) acc)
           [] (assignments s)"

text \<open>The body of the inner loop of \<open>_check_hours_compliance\<close>: the violation built, if any.\<close>

definition hours_violation :: "text_fns \<Rightarrow> Employee \<Rightarrow> string \<Rightarrow> int \<Rightarrow> rat \<Rightarrow> Violation option" where
  "hours_violation tf emp eid week_num hrs =
     (let (min_hours, max_hours) = hours_limits (employee_type emp)
      in if hrs > of_int max_hours
         then Some \<lparr>constraint_type = HOURS_MAX, severity = 9,
                    description = emp_name emp @ '' exceeds max hours: '' @ fmt_1f tf hrs @ ''/'' @
                                  str_int tf max_hours @ ''h in week '' @ str_int tf (week_num + 1),
                    affected_entity = eid, affected_date = None,
                    details = [''employee_name'' \<mapsto> PStr (emp_name emp),
                               ''employee_type'' \<mapsto> PStr (EmployeeType_value (employee_type emp)),
                               ''current_hours'' \<mapsto> PNum hrs,
                               ''max_hours'' \<mapsto> PNum (of_int max_hours),
                               ''week'' \<mapsto> PNum (of_int (week_num + 1)),
                               ''excess_hours'' \<mapsto> PNum (hrs - of_int max_hours)],
                    suggestions = [''Remove '' @ fmt_1f tf (hrs - of_int max_hours) @ '' hours from '' @
                                   emp_name emp @ [CHR 0x27] @ ''s schedule'',
                                   ''Reassign some shifts to other employees'']\<rparr>
         else if hrs < of_int min_hours
         then Some \<lparr>constraint_type = HOURS_MIN, severity = 4,
                    description = emp_name emp @ '' below target hours: '' @ fmt_1f tf hrs @ ''/'' @
                                  str_int tf min_hours @ ''h in week '' @ str_int tf (week_num + 1),
                    affected_entity = eid, affected_date = None,
                    details = [''employee_name'' \<mapsto> PStr (emp_name emp),
                               ''employee_type'' \<mapsto> PStr (EmployeeType_value (employee_type emp)),
                               ''current_hours'' \<mapsto> PNum hrs,
                               ''min_hours'' \<mapsto> PNum (of_int min_hours),
                               ''week'' \<mapsto> PNum (of_int (week_num + 1)),
                               ''shortfall'' \<mapsto> PNum (of_int min_hours - hrs)],
                    suggestions = [''Add '' @ fmt_1f tf (of_int min_hours - hrs) @ '' more hours for '' @
                                   emp_name emp]\<rparr>
         else if hrs \<ge> of_int max_hours * (85 / 100)
         then (let remaining = of_int max_hours - hrs
               in Some \<lparr>constraint_type = HOURS_MAX, severity = 2,
                    description = warning_sign @ '' '' @ emp_name emp @ '' approaching max hours: '' @
                                  fmt_1f tf hrs @ ''/'' @ str_int tf max_hours @ ''h ('' @
                                  fmt_1f tf remaining @ ''h remaining)'',
                    affected_entity = eid, affected_date = None,
                    details = [''employee_name'' \<mapsto> PStr (emp_name emp),
                               ''employee_type'' \<mapsto> PStr (EmployeeType_value (employee_type emp)),
                               ''current_hours'' \<mapsto> PNum hrs,
                               ''max_hours'' \<mapsto> PNum (of_int max_hours),
                               ''remaining_hours'' \<mapsto> PNum remaining,
                               ''week'' \<mapsto> PNum (of_int (week_num + 1)),
                               ''utilization_pct'' \<mapsto> PNum ((hrs / of_int max_hours) * 100),
                               ''alert_type'' \<mapsto> PStr ''approaching_limit''],
                    suggestions = [''Avoid assigning additional shifts to '' @ emp_name emp @
                                   '' this week'',
                                   ''Only '' @ fmt_1f tf remaining @ ''h remaining before max limit'']\<rparr>)
         else None)"

fun check_weeks :: "text_fns \<Rightarrow> Employee \<Rightarrow> string \<Rightarrow> (int \<times> rat) list \<Rightarrow> ComplianceResult
                    \<Rightarrow> py_error + ComplianceResult" where
  "check_weeks tf emp eid [] r = Inr r"
| "check_weeks tf emp eid ((week_num, hrs) # rest) r =
     (case hours_violation tf emp eid week_num hrs of
        None \<Rightarrow> check_weeks tf emp eid rest r
      | Some v \<Rightarrow>
          (case add_violation r v of
             Inl e \<Rightarrow> Inl e
           | Inr r' \<Rightarrow> check_weeks tf emp eid rest r'))"

fun check_hours_loop :: "text_fns \<Rightarrow> (string \<rightharpoonup> Employee) \<Rightarrow> (string \<times> (int \<times> rat) list) list
                         \<Rightarrow> ComplianceResult \<Rightarrow> py_error + ComplianceResult" where
  "check_hours_loop tf emps [] r = Inr r"
| "check_hours_loop tf emps ((eid, weekly_hours) # rest) r =
     (case emps eid of
        None \<Rightarrow> check_hours_loop tf emps rest r
      | Some emp \<Rightarrow>
          (case check_weeks tf emp eid weekly_hours r of
             Inl e \<Rightarrow> Inl e
           | Inr r' \<Rightarrow> check_hours_loop tf emps rest r'))"

definition check_hours_compliance :: "text_fns \<Rightarrow> Schedule \<Rightarrow> (string \<rightharpoonup> Employee)
                                      \<Rightarrow> ComplianceResult \<Rightarrow> py_error + ComplianceResult" where
  "check_hours_compliance tf s emps r = check_hours_loop tf emps (employee_weekly_hours s) r"

text \<open>\<open>d[k].append(a)\<close> on a \<open>defaultdict(list)\<close> kept in insertion order.\<close>

fun dd_group :: "'k \<Rightarrow> 'a \<Rightarrow> ('k \<times> 'a list) list \<Rightarrow> ('k \<times> 'a list) list" where
  "dd_group k a [] = [(k, [a])]"
| "dd_group k a ((k', xs) # rest) =
     (if k' = k then (k', xs @ [a]) # rest else (k', xs) # dd_group k a rest)"

definition employee_assignments :: "Schedule \<Rightarrow> (string \<times> Assignment list) list" where
  "employee_assignments s =
     foldl (\<lambda>acc a. dd_group (emp_id (employee a)) a acc) [] (assignments s)"

definition min_rest_hours :: int where
  "min_rest_hours = 10"

definition rest_violation :: "text_fns \<Rightarrow> Employee \<Rightarrow> string \<Rightarrow> Assignment \<Rightarrow> Assignment
                              \<Rightarrow> Violation option" where
  "rest_violation tf emp eid current next_shift =
     (let rest_hours = hours_until_next (shift current) (shift next_shift)
      in if rest_hours < of_int min_rest_hours
         then Some \<lparr>constraint_type = REST_PERIOD, severity = 10,
                    description = emp_name emp @ '' has only '' @ fmt_1f tf rest_hours @
                                  ''h rest (min: '' @ str_int tf min_rest_hours @ ''h)'',
                    affected_entity = eid,
                    affected_date = Some (date (shift next_shift)),
                    details = [''employee_name'' \<mapsto> PStr (emp_name emp),
                               ''shift_1'' \<mapsto> PStr (str_shift tf (shift current)),
                               ''shift_2'' \<mapsto> PStr (str_shift tf (shift next_shift)),
                               ''rest_hours'' \<mapsto> PNum rest_hours,
                               ''min_required'' \<mapsto> PNum (of_int min_rest_hours)],
                    suggestions = [''Change '' @ emp_name emp @ [CHR 0x27] @ ''s shift on '' @
                                   str_date tf (date (shift next_shift)) @ '' to a later start time'',
                                   ''Reassign one of the shifts to another employee'']\<rparr>
         else None)"

text \<open>The loop over \<open>range(len(sorted_assignments) - 1)\<close>: each element with its successor.\<close>

fun check_pairs :: "text_fns \<Rightarrow> Employee \<Rightarrow> string \<Rightarrow> Assignment list \<Rightarrow> ComplianceResult
                    \<Rightarrow> py_error + ComplianceResult" where
  "check_pairs tf emp eid (current # next_shift # rest) r =
     (case rest_violation tf emp eid current next_shift of
        None \<Rightarrow> check_pairs tf emp eid (next_shift # rest) r
      | Some v \<Rightarrow>
          (case add_violation r v of
             Inl e \<Rightarrow> Inl e
           | Inr r' \<Rightarrow> check_pairs tf emp eid (next_shift # rest) r'))"
| "check_pairs tf emp eid xs r = Inr r"

fun check_rest_loop :: "text_fns \<Rightarrow> (string \<rightharpoonup> Employee) \<Rightarrow> (string \<times> Assignment list) list
                        \<Rightarrow> ComplianceResult \<Rightarrow> py_error + ComplianceResult" where
  "check_rest_loop tf emps [] r = Inr r"
| "check_rest_loop tf emps ((eid, assigned) # rest) r =
     (case emps eid of
        None \<Rightarrow> check_rest_loop tf emps rest r
      | Some emp \<Rightarrow>
          (let sorted_assignments =
                 sort_key (\<lambda>a. (date (shift a), start_time (shift a))) assigned
           in case check_pairs tf emp eid sorted_assignments r of
                Inl e \<Rightarrow> Inl e
              | Inr r' \<Rightarrow> check_rest_loop tf emps rest r'))"

definition check_rest_period_compliance :: "text_fns \<Rightarrow> Schedule \<Rightarrow> (string \<rightharpoonup> Employee)
                                            \<Rightarrow> ComplianceResult \<Rightarrow> py_error + ComplianceResult" where
  "check_rest_period_compliance tf s emps r = check_rest_loop tf emps (employee_assignments s) r"

definition calculate_gini :: "rat list \<Rightarrow> rat" where
  "calculate_gini vals =
     (if vals = [] \<or> length vals = 0 then 0
      else (let sorted_values = sort vals;
                n = length sorted_values;
                cumsum = sum_list (map (\<lambda>(i, val). (of_nat i + 1) * val)
                                       (enumerate 0 sorted_values));
                total = sum_list sorted_values
            in if total = 0 then 0
               else (let gini = (2 * cumsum) / (of_nat n * total) - (of_nat n + 1) / of_nat n
                     in max 0 (min 1 gini))))"

section \<open>config.py: RateLimiter\<close>

text \<open>
  \<open>time.time()\<close> is read once per call; the reading is the first argument of
  \<open>acquire\<close> and \<open>remaining\<close>. Each returns its value and the limiter after the call.
\<close>

record RateLimiter =
  max_calls :: int
  period_seconds :: rat
  calls :: "rat list"

definition new_rate_limiter :: "int \<Rightarrow> rat \<Rightarrow> RateLimiter" where
  "new_rate_limiter mc ps = \<lparr>max_calls = mc, period_seconds = ps, calls = []\<rparr>"

definition acquire :: "rat \<Rightarrow> RateLimiter \<Rightarrow> bool \<times> RateLimiter" where
  "acquire now rl =
     (let rl1 = rl\<lparr>calls := filter (\<lambda>t. now - t < period_seconds rl) (calls rl)\<rparr>
      in if int (length (calls rl1)) \<ge> max_calls rl1 then (False, rl1)
         else (True, rl1\<lparr>calls := calls rl1 @ [now]\<rparr>))"

definition remaining :: "rat \<Rightarrow> RateLimiter \<Rightarrow> int \<times> RateLimiter" where
  "remaining now rl =
     (let rl1 = rl\<lparr>calls := filter (\<lambda>t. now - t < period_seconds rl) (calls rl)\<rparr>
      in (max 0 (max_calls rl1 - int (length (calls rl1))), rl1))"

definition llm_rate_limiter :: RateLimiter where
  "llm_rate_limiter = new_rate_limiter 10 60"

text \<open>Calls of \<open>acquire\<close> one after the other, at the given clock readings.\<close>

fun acquire_seq :: "rat list \<Rightarrow> RateLimiter \<Rightarrow> bool list \<times> RateLimiter" where
  "acquire_seq [] rl = ([], rl)"
| "acquire_seq (now # rest) rl =
     (let (ok, rl1) = acquire now rl;
          (oks, rl2) = acquire_seq rest rl1
      in (ok # oks, rl2))"

section \<open>communication/message.py and communication/message_bus.py\<close>

datatype MessageType =
    REQUEST | RESPONSE | BROADCAST | DATA | SCHEDULE | VALIDATION_REQUEST | VALIDATION_RESULT
  | VIOLATION | CONFLICT | RESOLUTION_OPTIONS | RESOLUTION_SELECTED | STATUS | ERROR | COMPLETE
  | APPROVAL_REQUEST | APPROVAL_RESPONSE | NEGOTIATE_PROPOSE | NEGOTIATE_COUNTER
  | NEGOTIATE_ACCEPT | NEGOTIATE_REJECT | BID_REQUEST | BID_SUBMIT | BID_RESULT

fun MessageType_value :: "MessageType \<Rightarrow> string" where
  "MessageType_value REQUEST = ''request''"
| "MessageType_value RESPONSE = ''response''"
| "MessageType_value BROADCAST = ''broadcast''"
| "MessageType_value DATA = ''data''"
| "MessageType_value SCHEDULE = ''schedule''"
| "MessageType_value VALIDATION_REQUEST = ''validation_request''"
| "MessageType_value VALIDATION_RESULT = ''validation_result''"
| "MessageType_value VIOLATION = ''violation''"
| "MessageType_value CONFLICT = ''conflict''"
| "MessageType_value RESOLUTION_OPTIONS = ''resolution_options''"
| "MessageType_value RESOLUTION_SELECTED = ''resolution_selected''"
| "MessageType_value STATUS = ''status''"
| "MessageType_value ERROR = ''error''"
| "MessageType_value COMPLETE = ''complete''"
| "MessageType_value APPROVAL_REQUEST = ''approval_request''"
| "MessageType_value APPROVAL_RESPONSE = ''approval_response''"
| "MessageType_value NEGOTIATE_PROPOSE = ''negotiate_propose''"
| "MessageType_value NEGOTIATE_COUNTER = ''negotiate_counter''"
| "MessageType_value NEGOTIATE_ACCEPT = ''negotiate_accept''"
| "MessageType_value NEGOTIATE_REJECT = ''negotiate_reject''"
| "MessageType_value BID_REQUEST = ''bid_request''"
| "MessageType_value BID_SUBMIT = ''bid_submit''"
| "MessageType_value BID_RESULT = ''bid_result''"

text \<open>
  The payload of a message has any type; \<open>content_str\<close> is \<open>str(message.content)\<close>
  and \<open>timestamp_str\<close> the rendered timestamp, both fixed when the message is made.
\<close>

record 'c Message =
  msg_type :: MessageType
  sender :: string
  receiver :: "string option"
  content :: 'c
  content_str :: string
  correlation_id :: string
  timestamp_str :: string
  metadata :: "string \<rightharpoonup> pyval"

text \<open>
  \<open>subscribers\<close> is a dictionary iterated in insertion order: an association list with
  one entry per name. A handler is a value of type \<open>'h\<close>; what calling it does is given
  by \<open>call h m w\<close>, which takes the state \<open>w\<close> of the agents to the state after the
  call, or raises. The handlers act on the agents' state, not on the subscriber table.
  \<open>console\<close> collects the lines printed.
\<close>

record ('h, 'c) MessageBus =
  subscribers :: "(string \<times> 'h) list"
  message_history :: "'c Message list"
  verbose :: bool
  console :: "string list"

definition new_message_bus :: "bool \<Rightarrow> ('h, 'c) MessageBus" where
  "new_message_bus v = \<lparr>subscribers = [], message_history = [], verbose = v, console = []\<rparr>"

fun dict_set :: "'k \<Rightarrow> 'v \<Rightarrow> ('k \<times> 'v) list \<Rightarrow> ('k \<times> 'v) list" where
  "dict_set k v [] = [(k, v)]"
| "dict_set k v ((k', v') # rest) =
     (if k' = k then (k', v) # rest else (k', v') # dict_set k v rest)"

definition satellite_sign :: string where
  "satellite_sign = [CHR 0xF0, CHR 0x9F, CHR 0x93, CHR 0xA1]"

definition register :: "string \<Rightarrow> 'h \<Rightarrow> ('h, 'c) MessageBus \<Rightarrow> ('h, 'c) MessageBus" where
  "register agent_name handler bus =
     (let bus1 = bus\<lparr>subscribers := dict_set agent_name handler (subscribers bus)\<rparr>
      in if verbose bus1
         then bus1\<lparr>console := console bus1 @
                      [''[dim]'' @ satellite_sign @ '' Agent registered: '' @ agent_name @ ''[/dim]'']\<rparr>
         else bus1)"

definition unregister :: "string \<Rightarrow> ('h, 'c) MessageBus \<Rightarrow> ('h, 'c) MessageBus" where
  "unregister agent_name bus =
     (if agent_name \<in> fst ` set (subscribers bus)
      then bus\<lparr>subscribers := filter (\<lambda>(n, h). n \<noteq> agent_name) (subscribers bus)\<rparr>
      else bus)"

definition type_colors :: "MessageType \<rightharpoonup> string" where
  "type_colors = [REQUEST \<mapsto> ''cyan'', RESPONSE \<mapsto> ''green'', VIOLATION \<mapsto> ''red'',
                  CONFLICT \<mapsto> ''yellow'', RESOLUTION_OPTIONS \<mapsto> ''magenta'',
                  COMPLETE \<mapsto> ''green'', ERROR \<mapsto> ''red'', APPROVAL_REQUEST \<mapsto> ''yellow'']"

definition right_arrow :: string where
  "right_arrow = [CHR 0xE2, CHR 0x86, CHR 0x92]"

definition corner_sign :: string where
  "corner_sign = [CHR 0xE2, CHR 0x94, CHR 0x94, CHR 0xE2, CHR 0x94, CHR 0x80]"

definition print_message :: "'c Message \<Rightarrow> string list" where
  "print_message m =
     (let color = dict_get type_colors (msg_type m) ''white'';
          rcv = (case receiver m of None \<Rightarrow> ''ALL'' | Some r \<Rightarrow> if r = [] then ''ALL'' else r);
          cs = content_str m;
          cs' = (if length cs > 150 then take 150 cs @ ''...'' else cs);
          line1 = ''[dim]'' @ timestamp_str m @ ''[/dim] [bold]'' @ sender m @ ''[/bold] '' @
                  right_arrow @ '' [bold]'' @ rcv @ ''[/bold] ['' @ color @ ''](''
                  @ MessageType_value (msg_type m) @ '')[/'' @ color @ '']''
      in if cs' \<noteq> [] \<and> msg_type m \<noteq> DATA
         then [line1, ''  [dim]'' @ corner_sign @ '' '' @ cs' @ ''[/dim]'']
         else [line1])"

text \<open>The broadcast loop: the handlers are called in order; a raise ends the loop.\<close>

fun broadcast :: "('h \<Rightarrow> 'c Message \<Rightarrow> 'w \<Rightarrow> py_error + 'w) \<Rightarrow> 'c Message \<Rightarrow> (string \<times> 'h) list
                  \<Rightarrow> 'w \<Rightarrow> py_error + 'w" where
  "broadcast call m [] w = Inr w"
| "broadcast call m ((agent_name, handler) # rest) w =
     (if agent_name \<noteq> sender m
      then (case call handler m w of
              Inl e \<Rightarrow> Inl e
            | Inr w' \<Rightarrow> broadcast call m rest w')
      else broadcast call m rest w)"

text \<open>
  \<open>send\<close> gives the bus after the call, which no handler changes, and the agents'
  state after the call or the exception a handler raised.
\<close>

definition send :: "('h \<Rightarrow> 'c Message \<Rightarrow> 'w \<Rightarrow> py_error + 'w) \<Rightarrow> 'c Message
                    \<Rightarrow> ('h, 'c) MessageBus \<Rightarrow> 'w \<Rightarrow> ('h, 'c) MessageBus \<times> (py_error + 'w)" where
  "send call m bus w =
     (let bus1 = bus\<lparr>message_history := message_history bus @ [m]\<rparr>;
          bus2 = (if verbose bus1 then bus1\<lparr>console := console bus1 @ print_message m\<rparr> else bus1)
      in case receiver m of
           None \<Rightarrow> (bus2, broadcast call m (subscribers bus2) w)
         | Some r \<Rightarrow>
             (case map_of (subscribers bus2) r of
                Some handler \<Rightarrow> (bus2, call handler m w)
              | None \<Rightarrow>
                  (bus2\<lparr>console := console bus2 @
                           [''[red]'' @ warning_sign @ '' Agent '' @ [CHR 0x27] @ r @ [CHR 0x27] @
                            '' not found![/red]'']\<rparr>,
                   Inr w)))"

section \<open>models/store.py and agents/staff_matcher.py\<close>

text \<open>The fields of a store that the matcher reads.\<close>

record Store =
  store_ident :: string
  store_name :: string
  has_mccafe :: bool
  has_dessert_station :: bool

definition get_active_stations :: "Store \<Rightarrow> Station list" where
  "get_active_stations st =
     [KITCHEN, COUNTER] @ (if has_mccafe st then [MCCAFE] else []) @
     (if has_dessert_station st then [DESSERT] else [])"

record EmployeeBid =
  bid_employee_id :: string
  bid_employee_name :: string
  bid_shift_date :: int
  bid_shift_code :: string
  bid_station :: Station
  skill_bid :: rat
  hours_bid :: rat
  fairness_bid :: rat
  preference_bid :: rat
  total_score :: rat

text \<open>
  The state of the matcher. \<open>demand_forecast\<close> gives, for a date, the
  \<open>shift_requirements\<close> of the day's forecast: staff counts by shift code and station
  name. \<open>employee_hours\<close> is the nested \<open>defaultdict(float)\<close>, whose missing entries
  read as 0. The values of \<open>random.uniform(0, 5)\<close> are a parameter \<open>rnd\<close> of the
  functions that draw: \<open>rnd n\<close> is the value of draw number \<open>n\<close>, and \<open>draws\<close> counts
  the draws made. Log lines and the final message to the coordinator are left out.
\<close>

record StaffMatcher =
  sm_schedule :: Schedule
  sm_employees :: "Employee list"
  sm_store :: Store
  demand_forecast :: "int \<rightharpoonup> (string \<rightharpoonup> (string \<rightharpoonup> int))"
  employee_hours :: "string \<Rightarrow> int \<Rightarrow> rat"
  daily_assignments :: "int \<rightharpoonup> Assignment list"
  draws :: nat

text \<open>\<open>date.weekday()\<close>: Monday is 0; ordinal 1 is a Monday.\<close>

definition weekday :: "int \<Rightarrow> int" where
  "weekday d = (d - 1) mod 7"

definition get_average_hours_this_week :: "StaffMatcher \<Rightarrow> int \<Rightarrow> rat" where
  "get_average_hours_this_week st week_num =
     (let all_hours = map (\<lambda>emp. employee_hours st (emp_id emp) week_num) (sm_employees st)
      in if all_hours = [] then 0 else sum_list all_hours / of_nat (length all_hours))"

fun type_bids :: "EmployeeType \<Rightarrow> rat" where
  "type_bids FULL_TIME = 50"
| "type_bids PART_TIME = 30"
| "type_bids CASUAL = 15"

definition generate_employee_bid :: "(nat \<Rightarrow> rat) \<Rightarrow> StaffMatcher \<Rightarrow> Employee \<Rightarrow> int \<Rightarrow> string \<Rightarrow> Station
                                     \<Rightarrow> EmployeeBid \<times> StaffMatcher" where
  "generate_employee_bid rnd st e target_date shift_code stn =
     (let skill = (if primary_station e = stn then 100
                   else if stn \<in> skills e then 60 else 0);
          hours0 = 0 + type_bids (employee_type e);
          week_num = get_week_number (Some (sm_schedule st)) target_date;
          current_hours = employee_hours st (emp_id e) week_num;
          (min_hours, max_hours) = weekly_hours_target e;
          hours1 = (if current_hours < min_hours
                    then hours0 + min 30 ((min_hours - current_hours) * 2)
                    else if current_hours < max_hours then hours0 + 10 else hours0);
          avg_hours = get_average_hours_this_week st week_num;
          fairness = (if current_hours < avg_hours * (7 / 10) then 25
                      else if current_hours < avg_hours then 10 else 0);
          is_weekend = (weekday target_date \<ge> 5);
          preference = (if shift_code = ''1F'' then 5
                        else if shift_code = ''2F'' \<and> \<not> is_weekend then 3
                        else if is_weekend
                        then (if current_hours < min_hours then 10 else - 5)
                        else 0);
          random_factor = rnd (draws st);
          total = skill + hours1 + fairness + preference + random_factor
      in (\<lparr>bid_employee_id = emp_id e, bid_employee_name = emp_name e,
            bid_shift_date = target_date, bid_shift_code = shift_code, bid_station = stn,
            skill_bid = skill, hours_bid = hours1, fairness_bid = fairness,
            preference_bid = preference, total_score = total\<rparr>,
          st\<lparr>draws := draws st + 1\<rparr>))"

definition calculate_candidate_score :: "(nat \<Rightarrow> rat) \<Rightarrow> StaffMatcher \<Rightarrow> Employee \<Rightarrow> int \<Rightarrow> string
                                         \<Rightarrow> Station \<Rightarrow> rat \<times> StaffMatcher" where
  "calculate_candidate_score rnd st e target_date shift_code stn =
     (let (bid, st1) = generate_employee_bid rnd st e target_date shift_code stn
      in (total_score bid, st1))"

text \<open>The loop of \<open>_get_ranked_candidates\<close> that collects (score, employee) pairs.\<close>

fun collect_candidates :: "(nat \<Rightarrow> rat) \<Rightarrow> int \<Rightarrow> string \<Rightarrow> Station \<Rightarrow> Employee list
                           \<Rightarrow> (rat \<times> Employee) list \<Rightarrow> StaffMatcher
                           \<Rightarrow> (rat \<times> Employee) list \<times> StaffMatcher" where
  "collect_candidates rnd target_date shift_code stn [] acc st = (acc, st)"
| "collect_candidates rnd target_date shift_code stn (e # es) acc st =
     (if \<not> is_available e target_date shift_code
      then collect_candidates rnd target_date shift_code stn es acc st
      else if is_employee_assigned (sm_schedule st) (emp_id e) target_date
      then collect_candidates rnd target_date shift_code stn es acc st
      else if \<not> can_work_station e stn
      then collect_candidates rnd target_date shift_code stn es acc st
      else (let (score_e, st1) = calculate_candidate_score rnd st e target_date shift_code stn
            in collect_candidates rnd target_date shift_code stn es (acc @ [(score_e, e)]) st1))"

text \<open>
  \<open>candidates.sort(key=lambda x: x[0], reverse=True)\<close>: descending by score, and
  stable, so that equal scores keep their order.
\<close>

definition get_ranked_candidates :: "(nat \<Rightarrow> rat) \<Rightarrow> int \<Rightarrow> string \<Rightarrow> Station \<Rightarrow> StaffMatcher
                                     \<Rightarrow> Employee list \<times> StaffMatcher" where
  "get_ranked_candidates rnd target_date shift_code stn st =
     (let (candidates, st1) =
            collect_candidates rnd target_date shift_code stn (sm_employees st) [] st
      in (map snd (sort_key (\<lambda>c. - fst c) candidates), st1))"

definition check_rest_period :: "StaffMatcher \<Rightarrow> Employee \<Rightarrow> Shift \<Rightarrow> bool" where
  "check_rest_period st e new_shift =
     (let assigned = get_assignments_by_employee (sm_schedule st) (emp_id e)
      in if assigned = [] then True
         else (let new_start = get_start_datetime new_shift;
                   new_end = get_end_datetime new_shift
               in list_all
                    (\<lambda>a. let existing_start = get_start_datetime (shift a);
                             existing_end = get_end_datetime (shift a);
                             hours_after_existing = total_seconds new_start existing_end / 3600;
                             hours_before_existing = total_seconds existing_start new_end / 3600
                         in \<not> (0 < hours_after_existing \<and> hours_after_existing < 10) \<and>
                            \<not> (0 < hours_before_existing \<and> hours_before_existing < 10))
                    assigned))"

definition can_assign :: "StaffMatcher \<Rightarrow> Employee \<Rightarrow> int \<Rightarrow> string \<Rightarrow> bool" where
  "can_assign st e target_date shift_code =
     (if \<not> is_available e target_date shift_code then False
      else if is_employee_assigned (sm_schedule st) (emp_id e) target_date then False
      else (case from_code shift_code target_date of
              None \<Rightarrow> False
            | Some sh \<Rightarrow>
                (let week_num = get_week_number (Some (sm_schedule st)) target_date;
                     current_hours = employee_hours st (emp_id e) week_num;
                     max_hours = snd (weekly_hours_target e)
                 in if current_hours + hours sh > max_hours then False
                    else if \<not> check_rest_period st e sh then False
                    else True)))"

definition create_assignment :: "Employee \<Rightarrow> int \<Rightarrow> string \<Rightarrow> Station \<Rightarrow> Assignment option" where
  "create_assignment e target_date shift_code stn =
     (case from_code shift_code target_date of
        None \<Rightarrow> None
      | Some sh \<Rightarrow> Some (new_assignment e sh stn))"

definition record_assignment :: "Employee \<Rightarrow> int \<Rightarrow> Assignment \<Rightarrow> StaffMatcher \<Rightarrow> StaffMatcher" where
  "record_assignment e target_date a st =
     (let week_num = get_week_number (Some (sm_schedule st)) target_date
      in st\<lparr>employee_hours :=
               (employee_hours st)(emp_id e :=
                  (employee_hours st (emp_id e))(week_num :=
                     employee_hours st (emp_id e) week_num + hours (shift a))),
             daily_assignments :=
               (daily_assignments st)(target_date \<mapsto>
                  dict_get (daily_assignments st) target_date [] @ [a])\<rparr>)"

text \<open>The loop of \<open>_fill_station_shift\<close> over the ranked candidates.\<close>

fun fill_loop :: "int \<Rightarrow> string \<Rightarrow> Station \<Rightarrow> int \<Rightarrow> Employee list \<Rightarrow> int \<Rightarrow> StaffMatcher
                  \<Rightarrow> int \<times> StaffMatcher" where
  "fill_loop target_date shift_code stn required_count [] filled st = (filled, st)"
| "fill_loop target_date shift_code stn required_count (e # es) filled st =
     (if filled \<ge> required_count then (filled, st)
      else if can_assign st e target_date shift_code
      then (case create_assignment e target_date shift_code stn of
              Some a \<Rightarrow>
                fill_loop target_date shift_code stn required_count es (filled + 1)
                  (record_assignment e target_date a
                     (st\<lparr>sm_schedule := add_assignment (sm_schedule st) a\<rparr>))
            | None \<Rightarrow> fill_loop target_date shift_code stn required_count es filled st)
      else fill_loop target_date shift_code stn required_count es filled st)"

definition fill_station_shift :: "(nat \<Rightarrow> rat) \<Rightarrow> int \<Rightarrow> string \<Rightarrow> Station \<Rightarrow> int \<Rightarrow> StaffMatcher
                                  \<Rightarrow> int \<times> StaffMatcher" where
  "fill_station_shift rnd target_date shift_code stn required_count st =
     (let (candidates, st1) = get_ranked_candidates rnd target_date shift_code stn st
      in fill_loop target_date shift_code stn required_count candidates 0 st1)"

fun fill_stations :: "(nat \<Rightarrow> rat) \<Rightarrow> int \<Rightarrow> string \<Rightarrow> (string \<rightharpoonup> int) \<Rightarrow> Station list
                      \<Rightarrow> StaffMatcher \<Rightarrow> StaffMatcher" where
  "fill_stations rnd target_date shift_code shift_reqs [] st = st"
| "fill_stations rnd target_date shift_code shift_reqs (stn # rest) st =
     (let required_count = dict_get shift_reqs (Station_value stn) 0
      in fill_stations rnd target_date shift_code shift_reqs rest
           (if required_count > 0
            then snd (fill_station_shift rnd target_date shift_code stn required_count st)
            else st))"

fun match_codes :: "(nat \<Rightarrow> rat) \<Rightarrow> int \<Rightarrow> (string \<rightharpoonup> (string \<rightharpoonup> int)) \<Rightarrow> Station list
                    \<Rightarrow> string list \<Rightarrow> StaffMatcher \<Rightarrow> StaffMatcher" where
  "match_codes rnd target_date shift_requirements active_stations [] st = st"
| "match_codes rnd target_date shift_requirements active_stations (shift_code # rest) st =
     match_codes rnd target_date shift_requirements active_stations rest
       (fill_stations rnd target_date shift_code
          (dict_get shift_requirements shift_code Map.empty) active_stations st)"

definition match_day :: "(nat \<Rightarrow> rat) \<Rightarrow> int \<Rightarrow> StaffMatcher \<Rightarrow> StaffMatcher" where
  "match_day rnd target_date st =
     (let shift_requirements = dict_get (demand_forecast st) target_date Map.empty;
          active_stations = get_active_stations (sm_store st);
          shift_priority = [''1F'', ''3F'', ''2F'']
      in match_codes rnd target_date shift_requirements active_stations shift_priority st)"

text \<open>The loop \<open>while current_date <= end_date\<close> of \<open>execute\<close>.\<close>

function match_days :: "(nat \<Rightarrow> rat) \<Rightarrow> int \<Rightarrow> int \<Rightarrow> StaffMatcher \<Rightarrow> StaffMatcher" where
  "match_days rnd current_date last_date st =
     (if current_date \<le> last_date
      then match_days rnd (current_date + 1) last_date (match_day rnd current_date st)
      else st)"
  by pat_completeness auto
termination
  by (relation "measure (\<lambda>(rnd, current_date, last_date, st). nat (last_date + 1 - current_date))") auto

definition execute :: "(nat \<Rightarrow> rat) \<Rightarrow> Employee list \<Rightarrow> Store \<Rightarrow> (int \<rightharpoonup> (string \<rightharpoonup> (string \<rightharpoonup> int)))
                       \<Rightarrow> int \<Rightarrow> int \<Rightarrow> Schedule" where
  "execute rnd employees store forecast first_date last_date =
     sm_schedule
       (match_days rnd first_date last_date
          \<lparr>sm_schedule = new_schedule first_date last_date (store_ident store),
           sm_employees = employees, sm_store = store, demand_forecast = forecast,
           employee_hours = (\<lambda>eid week_num. 0), daily_assignments = Map.empty, draws = 0\<rparr>)"

text \<open>
  The hours of the assignments of one employee id that fall in one week of the
  schedule, weeks counted from the schedule's first day.
\<close>

definition week_hours :: "Schedule \<Rightarrow> string \<Rightarrow> int \<Rightarrow> rat" where
  "week_hours s eid week_num =
     sum_list (map (\<lambda>a. hours (shift a))
                   (filter (\<lambda>a. emp_id (employee a) = eid \<and>
                                 get_week_number (Some s) (date (shift a)) = week_num)
                           (assignments s)))"

section \<open>agents/conflict_resolver.py\<close>

text \<open>
  A change of a resolution is a dictionary read with \<open>get\<close>: its \<open>type\<close> and, by type,
  the entries that the branch reads, each absent (\<open>None\<close>) or present.
\<close>

datatype change =
    Swap "Assignment option" "Employee option"
  | RemoveChange "Assignment option"
  | AddChange "Employee option" "int option" "string option" "Station option"
  | ModifyStation "Assignment option" "Station option"
  | OtherChange string

record Resolution =
  res_description :: string
  action :: string
  impact_score :: rat
  changes :: "change list"
  risk_level :: string
  requires_approval :: bool

text \<open>
  \<open>Resolution.__str__\<close>. The resolver writes the action as one of the ASCII words
  swap, remove, add and modify.
\<close>

definition str_resolution :: "text_fns \<Rightarrow> Resolution \<Rightarrow> string" where
  "str_resolution tf res =
     ''['' @ upper (action res) @ ''] '' @ res_description res @ '' (Impact: '' @
     fmt_1f tf (impact_score res) @ '')''"

text \<open>
  One pass of the loop body of \<open>_apply_resolution\<close>: the exception raised, if any, and
  the schedule as the pass leaves it. The value returned by \<open>remove_assignment\<close> is
  not looked at.
\<close>

fun apply_change :: "change \<Rightarrow> Schedule \<Rightarrow> py_error option \<times> Schedule" where
  "apply_change (Swap (Some a) (Some new_employee)) s =
     (case remove_assignment s a of
        (Inl e, s1) \<Rightarrow> (Some e, s1)
      | (Inr b, s1) \<Rightarrow>
          (None, add_assignment s1 (new_assignment new_employee (shift a) (station a))))"
| "apply_change (Swap a e) s = (None, s)"
| "apply_change (RemoveChange (Some a)) s =
     (case remove_assignment s a of
        (Inl e, s1) \<Rightarrow> (Some e, s1)
      | (Inr b, s1) \<Rightarrow> (None, s1))"
| "apply_change (RemoveChange None) s = (None, s)"
| "apply_change (AddChange (Some e) (Some target_date) (Some shift_code) (Some st)) s =
     (if shift_code \<noteq> []
      then (case from_code shift_code target_date of
              Some sh \<Rightarrow> (None, add_assignment s (new_assignment e sh st))
            | None \<Rightarrow> (None, s))
      else (None, s))"
| "apply_change (AddChange e d c st) s = (None, s)"
| "apply_change (ModifyStation (Some a) (Some new_station)) s =
     (case remove_assignment s a of
        (Inl e, s1) \<Rightarrow> (Some e, s1)
      | (Inr b, s1) \<Rightarrow>
          (None, add_assignment s1 (new_assignment (employee a) (shift a) new_station)))"
| "apply_change (ModifyStation a st) s = (None, s)"
| "apply_change (OtherChange t) s = (None, s)"

fun apply_changes :: "change list \<Rightarrow> Schedule \<Rightarrow> py_error option \<times> Schedule" where
  "apply_changes [] s = (None, s)"
| "apply_changes (c # cs) s =
     (case apply_change c s of
        (Some e, s1) \<Rightarrow> (Some e, s1)
      | (None, s1) \<Rightarrow> apply_changes cs s1)"

record ConflictResolver =
  cr_schedule :: Schedule
  resolution_history :: "(string \<times> nat) list"

text \<open>\<open>_apply_resolution\<close>: the boolean returned and the agent after the call.\<close>

definition apply_resolution :: "text_fns \<Rightarrow> Resolution \<Rightarrow> ConflictResolver \<Rightarrow> bool \<times> ConflictResolver" where
  "apply_resolution tf res cr =
     (case apply_changes (changes res) (cr_schedule cr) of
        (Some e, s1) \<Rightarrow> (False, cr\<lparr>cr_schedule := s1\<rparr>)
      | (None, s1) \<Rightarrow>
          (True, cr\<lparr>cr_schedule := s1,
                    resolution_history := resolution_history cr @
                      [(str_resolution tf res, length (changes res))]\<rparr>))"

section \<open>Sequences of schedule operations\<close>

datatype schedule_op = Add Assignment | Remove Assignment

text \<open>The operations applied one after the other; a raise ends the run.\<close>

fun run_ops :: "Schedule \<Rightarrow> schedule_op list \<Rightarrow> py_error + Schedule" where
  "run_ops s [] = Inr s"
| "run_ops s (Add a # ops) = run_ops (add_assignment s a) ops"
| "run_ops s (Remove a # ops) =
     (case remove_assignment s a of
        (Inl e, s') \<Rightarrow> Inl e
      | (Inr b, s') \<Rightarrow> run_ops s' ops)"

text \<open>\<open>xs.count(a)\<close>: the number of elements equal to \<open>a\<close>.\<close>

definition py_count :: "Assignment \<Rightarrow> Assignment list \<Rightarrow> nat" where
  "py_count a xs = length (filter (\<lambda>x. assignment_eq x a) xs)"

text \<open>
  An index agrees with the assignment list when, under every key, it holds the
  assignments of the list that have this key, in the order of the list.
\<close>

definition index_of :: "(Assignment \<Rightarrow> 'k) \<Rightarrow> ('k \<rightharpoonup> Assignment list) \<Rightarrow> Assignment list \<Rightarrow> bool" where
  "index_of key idx xs = (\<forall>k. dict_get idx k [] = filter (\<lambda>a. key a = k) xs)"

definition indexes_consistent :: "Schedule \<Rightarrow> bool" where
  "indexes_consistent s =
     (index_of (\<lambda>a. date (shift a)) (by_date s) (assignments s) \<and>
      index_of (\<lambda>a. emp_id (employee a)) (by_employee s) (assignments s) \<and>
      index_of station (by_station s) (assignments s))"

section \<open>Calling handlers one after the other\<close>

text \<open>
  The handlers of a list called in order, each once, on the state left by the one
  before; a raise ends the calls. This is what ``send invokes these handlers'' means.
\<close>

fun invoke_all :: "('h \<Rightarrow> 'c Message \<Rightarrow> 'w \<Rightarrow> py_error + 'w) \<Rightarrow> 'c Message \<Rightarrow> 'h list \<Rightarrow> 'w
                   \<Rightarrow> py_error + 'w" where
  "invoke_all call m [] w = Inr w"
| "invoke_all call m (h # hs) w =
     (case call h m w of
        Inl e \<Rightarrow> Inl e
      | Inr w' \<Rightarrow> invoke_all call m hs w')"

section \<open>Bookkeeping of the matcher\<close>

text \<open>
  What the matcher's loops keep true: \<open>employee_hours\<close> is, for every employee id and
  week, the sum of the hours assigned in the schedule; no employee of the list is
  above the weekly maximum; and the list of employees is the one given.
\<close>

definition hours_tracked :: "Employee list \<Rightarrow> StaffMatcher \<Rightarrow> bool" where
  "hours_tracked employees st =
     ((\<forall>eid w. employee_hours st eid w = week_hours (sm_schedule st) eid w) \<and>
      (\<forall>e \<in> set employees. \<forall>w. employee_hours st (emp_id e) w \<le> snd (weekly_hours_target e)) \<and>
      sm_employees st = employees)"

section \<open>Statements of the specification\<close>

text \<open>
  The specification's description of an informational violation: an approaching-limit
  alert, a fairness note whose Gini coefficient is below 0.4, or a coverage shortfall
  of at most one person that carries no peak tag.
\<close>

definition spec_informational :: "Violation \<Rightarrow> bool" where
  "spec_informational v =
     (details v ''alert_type'' = Some (PStr ''approaching_limit'') \<or>
      (constraint_type v = FAIRNESS \<and>
         (case details v ''gini_coefficient'' of Some (PNum g) \<Rightarrow> g < 4 / 10 | _ \<Rightarrow> False)) \<or>
      (constraint_type v = COVERAGE \<and>
         (case (details v ''required_coverage'', details v ''current_coverage'') of
            (Some (PNum required), Some (PNum current)) \<Rightarrow> required - current \<le> 1
          | _ \<Rightarrow> False) \<and>
         details v ''peak_type'' = None))"

text \<open>
  A rendering of numbers, dates and times that prints nothing, for evaluating the
  checks on concrete schedules: no stated property depends on the rendered text.
\<close>

definition blank_text :: text_fns where
  "blank_text = \<lparr>fmt_1f = (\<lambda>x. []), str_int = (\<lambda>i. []), str_float = (\<lambda>x. []),
                  str_date = (\<lambda>d. []), strftime_date = (\<lambda>d. []), strftime_time = (\<lambda>t. [])\<rparr>"

section \<open>Sample values\<close>

text \<open>Concrete violations and results on which the properties are instantiated.\<close>

definition cost_warning :: Violation where
  "cost_warning = \<lparr>constraint_type = COST, severity = 10, description = ''Labour cost above budget'',
                    affected_entity = ''schedule'', affected_date = None,
                    details = Map.empty, suggestions = []\<rparr>"

definition staff_gap :: Violation where
  "staff_gap = \<lparr>constraint_type = MIN_STAFF, severity = 10, description = ''Only 1 staff'',
                 affected_entity = ''schedule'', affected_date = Some 739000,
                 details = [''current_staff'' \<mapsto> PNum 1, ''min_required'' \<mapsto> PNum 2],
                 suggestions = [''Add 1 more staff'']\<rparr>"

text \<open>
  A heap with the staffing gap at reference 0 and the cost warning at every other
  reference; the result after \<open>add_violation\<close> of the gap on a new result, and the
  result after a second \<open>add_violation\<close> of the same object.
\<close>

text \<open>
  The reason that the coordinator passes for a staffing gap whose details name no
  station.
\<close>

definition gap_reason :: string where
  "gap_reason = ''Unable to find suitable replacement despite cross-training options''"

definition gap_heap :: heap where
  "gap_heap i = (if i = 0 then staff_gap else cost_warning)"

definition gap_result :: ResultRefs where
  "gap_result = \<lparr>is_compliant_r = False, violations_r = [0], warnings_r = [],
                  pending_approvals_r = [], score_r = 80\<rparr>"

definition gap_twice :: ResultRefs where
  "gap_twice = \<lparr>is_compliant_r = False, violations_r = [0, 0], warnings_r = [],
                 pending_approvals_r = [], score_r = 60\<rparr>"

text \<open>
  A schedule is built by adding assignments for the given dates and shift codes to an
  empty schedule.
\<close>

definition add_coded :: "Employee \<Rightarrow> Station \<Rightarrow> Schedule \<Rightarrow> int \<times> string \<Rightarrow> Schedule" where
  "add_coded e st s dc =
     (case from_code (snd dc) (fst dc) of
        None \<Rightarrow> s
      | Some sh \<Rightarrow> add_assignment s (new_assignment e sh st))"

definition alex :: Employee where
  "alex = \<lparr>emp_id = ''E001'', emp_name = ''Alex'', employee_type = FULL_TIME,
            primary_station = KITCHEN, availability = Map.empty, skills = {KITCHEN},
            weekly_hours_target = (35, 38), current_week_hours = 0\<rparr>"

definition week_33 :: Schedule where
  "week_33 = foldl (add_coded alex KITCHEN) (new_schedule 739000 739013 ''Store_1'')
                   [(739000, ''3F''), (739001, ''3F''), (739002, ''1F'')]"

definition week_38 :: Schedule where
  "week_38 = foldl (add_coded alex KITCHEN) (new_schedule 739000 739013 ''Store_1'')
                   [(739000, ''3F''), (739001, ''1F''), (739002, ''1F''), (739003, ''M'')]"

text \<open>The double that the literal 38.1 denotes, and a shift of that many hours.\<close>

definition float_38_1 :: rat where
  "float_38_1 = 5362098306337997 / 140737488355328"

definition long_shift :: Shift where
  "long_shift = \<lparr>shift_type = FULL_DAY, date = 739000, start_time = (8, 0), end_time = (20, 0),
                  hours = float_38_1, break_minutes = 30\<rparr>"

definition week_38_1 :: Schedule where
  "week_38_1 = add_assignment (new_schedule 739000 739013 ''Store_1'')
                              (new_assignment alex long_shift KITCHEN)"

definition early_then_late :: Schedule where
  "early_then_late = foldl (add_coded alex KITCHEN) (new_schedule 739000 739013 ''Store_1'')
                           [(739000, ''1F''), (739001, ''2F'')]"

definition late_then_early :: Schedule where
  "late_then_early = foldl (add_coded alex KITCHEN) (new_schedule 739000 739013 ''Store_1'')
                           [(739000, ''2F''), (739001, ''1F'')]"

section \<open>Sample assignments and resolutions\<close>

definition blake :: Employee where
  "blake = \<lparr>emp_id = ''E002'', emp_name = ''Blake'', employee_type = PART_TIME,
             primary_station = KITCHEN, availability = Map.empty, skills = {KITCHEN, COUNTER},
             weekly_hours_target = (20, 32), current_week_hours = 0\<rparr>"

definition morning_shift :: Shift where
  "morning_shift = \<lparr>shift_type = FIRST_HALF, date = 739000, start_time = (6, 30),
                     end_time = (15, 30), hours = 9, break_minutes = 30\<rparr>"

definition alex_morning :: Assignment where
  "alex_morning = new_assignment alex morning_shift KITCHEN"

definition alex_locked :: Assignment where
  "alex_locked = (new_assignment alex morning_shift KITCHEN)\<lparr>is_locked := True\<rparr>"

definition locked_day :: Schedule where
  "locked_day = add_assignment (new_schedule 739000 739013 ''Store_1'') alex_locked"

definition swap_to_blake :: Resolution where
  "swap_to_blake = \<lparr>res_description = ''Reassign shift to Blake'', action = ''swap'',
                     impact_score = 10, changes = [Swap (Some alex_locked) (Some blake)],
                     risk_level = ''low'', requires_approval = False\<rparr>"

section \<open>A sample bus\<close>

text \<open>
  Handlers that write their own name to a log, and a bus with three agents, to see
  which handlers a message reaches.
\<close>

definition log_call :: "string \<Rightarrow> string Message \<Rightarrow> string list \<Rightarrow> py_error + string list" where
  "log_call h m w = Inr (w @ [h])"

definition three_agents :: "(string, string) MessageBus" where
  "three_agents = register ''Validator'' ''on_validator''
                    (register ''Matcher'' ''on_matcher''
                      (register ''Coordinator'' ''on_coordinator'' (new_message_bus False)))"

definition note_from :: "string \<Rightarrow> string option \<Rightarrow> string Message" where
  "note_from s r = \<lparr>msg_type = STATUS, sender = s, receiver = r, content = ''ready'',
                    content_str = ''ready'', correlation_id = ''0a1b2c3d'',
                    timestamp_str = ''12:00:00.000'', metadata = Map.empty\<rparr>"

section \<open>A sample run of the matcher\<close>

text \<open>
  One casual kitchen employee with a weekly target of 9 to 18 hours, available for the
  morning shift on three days in a row, a store with kitchen and counter, a forecast
  that asks for one kitchen opener on each of the days, and random draws that are all 0.
\<close>

definition casey :: Employee where
  "casey = \<lparr>emp_id = ''E003'', emp_name = ''Casey'', employee_type = CASUAL,
             primary_station = KITCHEN,
             availability = [739000 \<mapsto> [''1F''], 739001 \<mapsto> [''1F''], 739002 \<mapsto> [''1F'']],
             skills = {KITCHEN}, weekly_hours_target = (9, 18), current_week_hours = 0\<rparr>"

definition kitchen_store :: Store where
  "kitchen_store = \<lparr>store_ident = ''Store_1'', store_name = ''CBD'', has_mccafe = False,
                     has_dessert_station = False\<rparr>"

definition one_opener :: "int \<rightharpoonup> (string \<rightharpoonup> (string \<rightharpoonup> int))" where
  "one_opener = [739000 \<mapsto> [''1F'' \<mapsto> [''Kitchen'' \<mapsto> 1]],
                 739001 \<mapsto> [''1F'' \<mapsto> [''Kitchen'' \<mapsto> 1]],
                 739002 \<mapsto> [''1F'' \<mapsto> [''Kitchen'' \<mapsto> 1]]]"

definition no_jitter :: "nat \<Rightarrow> rat" where
  "no_jitter n = 0"

chapter \<open>Properties\<close>

section \<open>Gini coefficient\<close>

lemma sum_list_sort: "sum_list (sort xs) = sum_list (xs :: rat list)"
  by (metis mset_sort sum_mset_sum_list)

lemma ranked_sum:
  "sum_list (map (\<lambda>(i, val). (of_nat i + 1) * val) (enumerate 0 ys)) =
   (\<Sum>i = 0..<length ys. (of_nat i + 1) * (ys ! i :: rat))"
proof -
  have "sum_list (map (\<lambda>(i, val). (of_nat i + 1) * val) (enumerate 0 ys)) =
        (\<Sum>i = 0..<length ys. (map (\<lambda>(i, val). (of_nat i + 1) * val) (enumerate 0 ys)) ! i)"
    by (simp add: sum_list_sum_nth)
  also have "\<dots> = (\<Sum>i = 0..<length ys. (of_nat i + 1) * (ys ! i))"
    by (rule sum.cong) (simp_all add: nth_enumerate_eq)
  finally show ?thesis .
qed

text \<open>
  Claim C4. \<open>_calculate_gini\<close> returns 0 for the hours [10, 10, 10, 10] and 3/4 for
  [0, 0, 0, 40]; it returns 0 for the empty list and for any list that sums to zero;
  for any other list it is the value
  \<open>2 \<Sum> (i+1) h\<^sub>i / (n \<Sum> h\<^sub>i) - (n+1)/n\<close> over the list sorted ascending (ranks from 1),
  clamped to the interval from 0 to 1; and every result lies between 0 and 1.
\<close>

theorem C4_gini:
  "calculate_gini [10, 10, 10, 10] = 0 \<and>
   calculate_gini [0, 0, 0, 40] = 3 / 4 \<and>
   calculate_gini [] = 0 \<and>
   (sum_list xs = 0 \<longrightarrow> calculate_gini xs = 0) \<and>
   (xs \<noteq> [] \<and> sum_list xs \<noteq> 0 \<longrightarrow>
      calculate_gini xs =
        max 0 (min 1 (2 * (\<Sum>i = 0..<length xs. (of_nat i + 1) * (sort xs ! i))
                        / (of_nat (length xs) * sum_list xs)
                      - (of_nat (length xs) + 1) / of_nat (length xs)))) \<and>
   0 \<le> calculate_gini xs \<and> calculate_gini xs \<le> 1"
proof -
  have a: "calculate_gini [10, 10, 10, 10] = 0" by code_simp
  have b: "calculate_gini [0, 0, 0, 40] = 3 / 4" by code_simp
  have c: "calculate_gini [] = 0" by (simp add: calculate_gini_def)
  have d: "sum_list xs = 0 \<longrightarrow> calculate_gini xs = 0"
    by (simp add: calculate_gini_def Let_def sum_list_sort)
  have f: "xs \<noteq> [] \<and> sum_list xs \<noteq> 0 \<longrightarrow>
      calculate_gini xs =
        max 0 (min 1 (2 * (\<Sum>i = 0..<length xs. (of_nat i + 1) * (sort xs ! i))
                        / (of_nat (length xs) * sum_list xs)
                      - (of_nat (length xs) + 1) / of_nat (length xs)))"
    by (simp add: calculate_gini_def Let_def sum_list_sort ranked_sum)
  have e: "0 \<le> calculate_gini xs \<and> calculate_gini xs \<le> 1"
    by (simp add: calculate_gini_def Let_def)
  from a b c d e f show ?thesis by blast
qed

theorem C4_gini_witness:
  "sum_list [0, 0, 0 :: rat] = 0 \<and> calculate_gini [0, 0, 0] = 0 \<and>
   [1, 3 :: rat] \<noteq> [] \<and> sum_list [1, 3 :: rat] \<noteq> 0 \<and> calculate_gini [1, 3] = 1 / 4"
proof -
  have z: "sum_list [0, 0, 0 :: rat] = 0" by simp
  have n: "[1, 3 :: rat] \<noteq> [] \<and> sum_list [1, 3 :: rat] \<noteq> 0" by simp
  have s: "sort [1, 3 :: rat] = [1, 3]" by simp
  have u: "{0..<2::nat} = {0, 1}" by auto
  from C4_gini [of "[0, 0, 0]"] z have g0: "calculate_gini [0, 0, 0] = 0" by blast
  from C4_gini [of "[1, 3]"] n have
    "calculate_gini [1, 3] =
       max 0 (min 1 (2 * (\<Sum>i = 0..<length [1, 3 :: rat]. (of_nat i + 1) * (sort [1, 3 :: rat] ! i))
                        / (of_nat (length [1, 3 :: rat]) * sum_list [1, 3 :: rat])
                      - (of_nat (length [1, 3 :: rat]) + 1) / of_nat (length [1, 3 :: rat])))"
    by blast
  then have g1: "calculate_gini [1, 3] = 1 / 4" by (simp add: s u)
  from z n g0 g1 show ?thesis by blast
qed

section \<open>Rate limiter\<close>

lemma acquire_seq_within:
  "int (length (calls rl)) + int (length ts) \<le> max_calls rl \<Longrightarrow>
   (\<forall>now \<in> set ts. \<forall>t \<in> set (calls rl) \<union> set ts. now - t < period_seconds rl) \<Longrightarrow>
   acquire_seq ts rl = (replicate (length ts) True, rl\<lparr>calls := calls rl @ ts\<rparr>)"
proof (induction ts arbitrary: rl)
  case Nil
  then show ?case by simp
next
  case (Cons now rest)
  have keep: "filter (\<lambda>t. now - t < period_seconds rl) (calls rl) = calls rl"
    using Cons.prems(2) by (auto simp: filter_id_conv)
  have room: "\<not> int (length (calls rl)) \<ge> max_calls rl"
    using Cons.prems(1) by simp
  have step: "acquire now rl = (True, rl\<lparr>calls := calls rl @ [now]\<rparr>)"
    using keep room by (simp add: acquire_def Let_def)
  let ?rl1 = "rl\<lparr>calls := calls rl @ [now]\<rparr>"
  have "acquire_seq rest ?rl1 = (replicate (length rest) True, ?rl1\<lparr>calls := calls ?rl1 @ rest\<rparr>)"
    using Cons.prems by (intro Cons.IH) auto
  then show ?case using step by simp
qed

lemma window_diff:
  "(\<forall>t \<in> set ts. s \<le> t \<and> t < s + (60::rat)) \<Longrightarrow> a \<in> set ts \<Longrightarrow> b \<in> set ts \<Longrightarrow> a - b < 60"
proof -
  assume w: "\<forall>t \<in> set ts. s \<le> t \<and> t < s + (60::rat)" and a: "a \<in> set ts" and b: "b \<in> set ts"
  from w a have "a < s + 60" by blast
  moreover from w b have "s \<le> b" by blast
  ultimately show ?thesis by linarith
qed

text \<open>
  Claim C8. With at most 10 calls per 60 seconds: ten calls of \<open>acquire\<close> on the
  fresh limiter at clock readings \<open>ts\<close> that lie in one window \<open>[s, s + 60)\<close> all
  return True and are recorded; an eleventh call at a reading \<open>t11\<close> of the same window
  returns False and leaves the limiter as it was; and at any reading by which every
  recorded call is at least 60 seconds old, \<open>remaining\<close> reports 10 and \<open>acquire\<close>
  returns True, recording only the new call.
\<close>

theorem C8_rate_limiter:
  assumes len: "length ts = 10"
      and win: "\<forall>t \<in> set (ts @ [t11]). s \<le> t \<and> t < s + 60"
  shows "fst (acquire_seq ts llm_rate_limiter) = replicate 10 True \<and>
         calls (snd (acquire_seq ts llm_rate_limiter)) = ts \<and>
         acquire t11 (snd (acquire_seq ts llm_rate_limiter)) =
           (False, snd (acquire_seq ts llm_rate_limiter)) \<and>
         (\<forall>now. (\<forall>t \<in> set ts. now - t \<ge> 60) \<longrightarrow>
            fst (remaining now (snd (acquire_seq ts llm_rate_limiter))) = 10 \<and>
            fst (acquire now (snd (acquire_seq ts llm_rate_limiter))) = True \<and>
            calls (snd (acquire now (snd (acquire_seq ts llm_rate_limiter)))) = [now])"
proof -
  let ?rl = "llm_rate_limiter\<lparr>calls := ts\<rparr>"
  have diff: "\<forall>now \<in> set (ts @ [t11]). \<forall>t \<in> set (ts @ [t11]). now - t < 60"
    using win window_diff [of "ts @ [t11]" s] by blast
  have seq: "acquire_seq ts llm_rate_limiter = (replicate 10 True, ?rl)"
    using acquire_seq_within [of llm_rate_limiter ts] len diff
    by (simp add: llm_rate_limiter_def new_rate_limiter_def)
  have keep: "filter (\<lambda>t. t11 - t < 60) ts = ts"
    using diff by (auto simp: filter_id_conv)
  have full: "acquire t11 ?rl = (False, ?rl)"
    using keep len by (simp add: acquire_def Let_def llm_rate_limiter_def new_rate_limiter_def)
  have later: "\<forall>now. (\<forall>t \<in> set ts. now - t \<ge> 60) \<longrightarrow>
            fst (remaining now ?rl) = 10 \<and> fst (acquire now ?rl) = True \<and>
            calls (snd (acquire now ?rl)) = [now]"
  proof (intro allI impI)
    fix now assume old: "\<forall>t \<in> set ts. now - t \<ge> 60"
    then have "filter (\<lambda>t. now - t < 60) ts = []"
      by (auto simp: filter_empty_conv)
    then show "fst (remaining now ?rl) = 10 \<and> fst (acquire now ?rl) = True \<and>
            calls (snd (acquire now ?rl)) = [now]"
      by (simp add: remaining_def acquire_def Let_def llm_rate_limiter_def new_rate_limiter_def)
  qed
  from seq full later show ?thesis by simp
qed

theorem C8_rate_limiter_witness:
  "fst (acquire_seq [0, 1, 2, 3, 4, 5, 6, 7, 8, 9] llm_rate_limiter) = replicate 10 True \<and>
   acquire 59 (snd (acquire_seq [0, 1, 2, 3, 4, 5, 6, 7, 8, 9] llm_rate_limiter)) =
     (False, snd (acquire_seq [0, 1, 2, 3, 4, 5, 6, 7, 8, 9] llm_rate_limiter)) \<and>
   fst (remaining 69 (snd (acquire_seq [0, 1, 2, 3, 4, 5, 6, 7, 8, 9] llm_rate_limiter))) = 10 \<and>
   fst (acquire 69 (snd (acquire_seq [0, 1, 2, 3, 4, 5, 6, 7, 8, 9] llm_rate_limiter))) = True"
proof -
  have l: "length [0, 1, 2, 3, 4, 5, 6, 7, 8, 9 :: rat] = 10" by simp
  have w: "\<forall>t \<in> set ([0, 1, 2, 3, 4, 5, 6, 7, 8, 9 :: rat] @ [59]). 0 \<le> t \<and> t < 0 + 60" by simp
  have o: "\<forall>t \<in> set [0, 1, 2, 3, 4, 5, 6, 7, 8, 9 :: rat]. 69 - t \<ge> 60" by simp
  from C8_rate_limiter [OF l w] o show ?thesis by blast
qed

section \<open>Compliance result: soft penalties\<close>

lemma soft_penalty_le: "calculate_soft_penalty v = Inr p \<Longrightarrow> p \<le> 1 / 2"
  by (auto simp: calculate_soft_penalty_def Let_def split: sum.splits bool.splits)

lemma spec_informational_code:
  "spec_informational v \<Longrightarrow> is_informational_warning v = Inr True"
  by (auto simp: spec_informational_def is_informational_warning_def dict_get_def as_num_def
           split: option.splits pyval.splits)

lemma informational_penalty:
  "is_informational_warning v = Inr True \<Longrightarrow> calculate_soft_penalty v = Inr 0"
  by (simp add: calculate_soft_penalty_def)

lemma other_types_total:
  "constraint_type v \<noteq> FAIRNESS \<Longrightarrow> constraint_type v \<noteq> COVERAGE \<Longrightarrow>
   \<exists>b. is_informational_warning v = Inr b"
  by (auto simp: is_informational_warning_def)

text \<open>
  A violation that is not of a hard type goes through \<open>calculate_soft_penalty\<close>:
  adding it lowers the score by at most 0.5, the call returns for every soft type other
  than FAIRNESS and COVERAGE, whose \<open>details\<close> are compared as numbers, and for a soft
  violation that the specification calls informational the penalty is 0, the call
  returns, and a score that is not below 0 is left as it was.
\<close>

lemma soft_violation_penalty:
  assumes soft: "\<not> is_hard_constraint v"
  shows "(\<forall>r'. add_violation r v = Inr r' \<longrightarrow> score r - score r' \<le> 1 / 2) \<and>
         (constraint_type v \<noteq> FAIRNESS \<and> constraint_type v \<noteq> COVERAGE \<longrightarrow>
            (\<exists>r'. add_violation r v = Inr r')) \<and>
         (spec_informational v \<longrightarrow>
            calculate_soft_penalty v = Inr 0 \<and>
            (\<exists>r'. add_violation r v = Inr r' \<and> (0 \<le> score r \<longrightarrow> score r' = score r)))"
proof (intro conjI allI impI)
  fix r' assume a: "add_violation r v = Inr r'"
  then obtain p where p: "calculate_soft_penalty v = Inr p" and s: "score r' = max 0 (score r - p)"
    using soft by (auto simp: add_violation_def split: sum.splits)
  from soft_penalty_le [OF p] s show "score r - score r' \<le> 1 / 2" by (simp add: max_def)
next
  assume "constraint_type v \<noteq> FAIRNESS \<and> constraint_type v \<noteq> COVERAGE"
  then obtain b where "is_informational_warning v = Inr b" using other_types_total by blast
  then show "\<exists>r'. add_violation r v = Inr r'"
    using soft by (cases b) (simp_all add: add_violation_def calculate_soft_penalty_def Let_def)
next
  assume i: "spec_informational v"
  show "calculate_soft_penalty v = Inr 0"
    using informational_penalty [OF spec_informational_code [OF i]] .
next
  assume i: "spec_informational v"
  have p: "calculate_soft_penalty v = Inr 0"
    using informational_penalty [OF spec_informational_code [OF i]] .
  show "\<exists>r'. add_violation r v = Inr r' \<and> (0 \<le> score r \<longrightarrow> score r' = score r)"
    using soft p by (simp add: add_violation_def)
qed

section \<open>Escalation to the manager\<close>

lemma remove_ref_only:
  "filter (matches hp v) xs = [v] \<Longrightarrow>
   remove_ref hp v xs = Inr (remove1 v xs) \<and> filter (matches hp v) (remove1 v xs) = []"
proof (induction xs)
  case Nil
  then show ?case by simp
next
  case (Cons x xs)
  show ?case
  proof (cases "matches hp v x")
    case True
    with Cons.prems have "x = v" "filter (matches hp v) xs = []" by simp_all
    with True show ?thesis by simp
  next
    case False
    then have ne: "x \<noteq> v" by (auto simp: matches_def)
    from False Cons.prems have "filter (matches hp v) xs = [v]" by simp
    from Cons.IH [OF this] False ne show ?thesis by simp
  qed
qed

text \<open>
  Claim C2, as amended. For every result and every hard violation in its
  hard-violation list that is the only entry of the list equal to it (no second
  reference to the same object, no other object with the same fields), and for a reason
  that is not empty, \<open>escalate_to_manager\<close> returns, the violation is no longer in the
  hard-violation list, whose other entries and their objects are as before, it is
  appended to \<open>pending_approvals\<close>, its details hold the reason passed, which is not
  empty, under \<open>escalation_reason\<close>, its suggestions have at position 0 the text made
  of the warning sign, a space, \<open>MANAGER APPROVAL REQUIRED: \<close> and the reason, and
  \<open>is_compliant\<close> is true exactly when no hard violation remains. The statement holds
  of a violation of any type, so of the hard ones.
\<close>

theorem C2_escalate:
  assumes only: "filter (matches hp v) (violations_r r) = [v]"
      and rsn: "reason \<noteq> []"
  shows "\<exists>hp' r'. escalate_to_manager hp r v reason = Inr (hp', r') \<and>
           v \<notin> set (violations_r r') \<and>
           violations_r r' = remove1 v (violations_r r) \<and>
           (\<forall>x \<in> set (violations_r r'). hp' x = hp x) \<and>
           pending_approvals_r r' = pending_approvals_r r @ [v] \<and>
           details (hp' v) ''escalation_reason'' = Some (PStr reason) \<and>
           (\<exists>t. details (hp' v) ''escalation_reason'' = Some (PStr t) \<and> t \<noteq> []) \<and>
           suggestions (hp' v) =
             (warning_sign @ '' MANAGER APPROVAL REQUIRED: '' @ reason) # suggestions (hp v) \<and>
           prefix (warning_sign @ '' MANAGER APPROVAL REQUIRED'') (hd (suggestions (hp' v))) \<and>
           (is_compliant_r r' \<longleftrightarrow> violations_r r' = [])"
proof -
  let ?vs = "remove1 v (violations_r r)"
  let ?hp = "hp(v := escalated (hp v) reason)"
  from remove_ref_only [OF only]
  have rm: "remove_ref hp v (violations_r r) = Inr ?vs"
    and none: "filter (matches hp v) ?vs = []" by simp_all
  have mem: "v \<in> set (violations_r r)"
  proof -
    have "v \<in> set (filter (matches hp v) (violations_r r))" using only by simp
    then show ?thesis by simp
  qed
  have ex: "list_ex (matches hp v) (violations_r r)"
    using mem by (auto simp: list_ex_iff matches_def)
  have gone: "v \<notin> set ?vs"
  proof
    assume "v \<in> set ?vs"
    then have "v \<in> set (filter (matches hp v) ?vs)" by (simp add: matches_def)
    with none show False by simp
  qed
  obtain r' where r': "escalate_to_manager hp r v reason = Inr (?hp, r')"
    and vs: "violations_r r' = ?vs"
    and ps: "pending_approvals_r r' = pending_approvals_r r @ [v]"
    and ic: "is_compliant_r r' \<longleftrightarrow> ?vs = []"
    using ex rm by (simp add: escalate_to_manager_def Let_def)
  have same: "\<forall>x \<in> set (violations_r r'). ?hp x = hp x"
    using gone vs by auto
  have d: "details (?hp v) ''escalation_reason'' = Some (PStr reason)"
    by (simp add: escalated_def)
  from d rsn have
    t: "\<exists>t. details (?hp v) ''escalation_reason'' = Some (PStr t) \<and> t \<noteq> []" by blast
  have sg: "suggestions (?hp v) =
              (warning_sign @ '' MANAGER APPROVAL REQUIRED: '' @ reason) # suggestions (hp v)"
    by (simp add: escalated_def)
  have pf: "prefix (warning_sign @ '' MANAGER APPROVAL REQUIRED'') (hd (suggestions (?hp v)))"
    by (simp add: escalated_def)
  from r' gone vs same ps d t sg pf ic show ?thesis
    by (intro exI [of _ ?hp] exI [of _ r']) simp
qed

theorem C2_escalate_witness:
  "filter (matches gap_heap 0) (violations_r gap_result) = [0] \<and>
   (\<exists>hp' r'. escalate_to_manager gap_heap gap_result 0 gap_reason = Inr (hp', r') \<and>
      violations_r r' = [] \<and> is_compliant_r r' \<and> pending_approvals_r r' = [0] \<and>
      details (hp' 0) ''escalation_reason'' = Some (PStr gap_reason) \<and>
      hd (suggestions (hp' 0)) =
        warning_sign @ '' MANAGER APPROVAL REQUIRED: '' @ gap_reason)"
proof -
  have f: "filter (matches gap_heap 0) (violations_r gap_result) = [0]"
    by (simp add: gap_result_def matches_def)
  have n: "gap_reason \<noteq> []" by (simp add: gap_reason_def)
  have v: "violations_r gap_result = [0]" "pending_approvals_r gap_result = []"
    by (simp_all add: gap_result_def)
  from C2_escalate [OF f n] obtain hp' r' where
    e: "escalate_to_manager gap_heap gap_result 0 gap_reason = Inr (hp', r')" and
    a: "violations_r r' = remove1 0 (violations_r gap_result)" and
    b: "pending_approvals_r r' = pending_approvals_r gap_result @ [0]" and
    c: "details (hp' 0) ''escalation_reason'' = Some (PStr gap_reason)" and
    d: "suggestions (hp' 0) =
          (warning_sign @ '' MANAGER APPROVAL REQUIRED: '' @ gap_reason)
          # suggestions (gap_heap 0)" and
    i: "is_compliant_r r' \<longleftrightarrow> violations_r r' = []"
    by blast
  from a v have a': "violations_r r' = []" by simp
  from b v have b': "pending_approvals_r r' = [0]" by simp
  from d have d': "hd (suggestions (hp' 0)) =
        warning_sign @ '' MANAGER APPROVAL REQUIRED: '' @ gap_reason" by simp
  from i a' have i': "is_compliant_r r'" by simp
  from e a' i' b' c d' have
    "\<exists>hp' r'. escalate_to_manager gap_heap gap_result 0 gap_reason = Inr (hp', r') \<and>
      violations_r r' = [] \<and> is_compliant_r r' \<and> pending_approvals_r r' = [0] \<and>
      details (hp' 0) ''escalation_reason'' = Some (PStr gap_reason) \<and>
      hd (suggestions (hp' 0)) =
        warning_sign @ '' MANAGER APPROVAL REQUIRED: '' @ gap_reason"
    by blast
  with f show ?thesis by blast
qed

text \<open>
  Claim C2 as stated fails in two places. The suggestion inserted at position 0 begins
  with the warning sign, not with \<open>MANAGER APPROVAL REQUIRED\<close>. And for a result to
  which the same violation object was added twice, the escalation removes one of the
  two references only: the violation, now carrying the escalation reason, is still in
  the hard-violation list as well as in \<open>pending_approvals\<close>, and the result stays
  non-compliant.
\<close>

theorem C2_counterexample:
  "(\<exists>hp' r'. escalate_to_manager gap_heap gap_result 0 gap_reason = Inr (hp', r') \<and>
      \<not> prefix ''MANAGER APPROVAL REQUIRED'' (hd (suggestions (hp' 0)))) \<and>
   (\<exists>hp' r'. escalate_to_manager gap_heap gap_twice 0 gap_reason = Inr (hp', r') \<and>
      violations_r r' = [0] \<and> \<not> is_compliant_r r' \<and> pending_approvals_r r' = [0] \<and>
      details (hp' 0) ''escalation_reason'' = Some (PStr gap_reason))"
  by (simp add: escalate_to_manager_def escalated_def gap_result_def gap_twice_def gap_heap_def
                matches_def Let_def warning_sign_def)

section \<open>Hours check\<close>

lemma check_hours_single:
  "employee_weekly_hours s = [(eid, [(w, h)])] \<Longrightarrow> emps eid = Some e \<Longrightarrow>
   check_hours_compliance tf s emps r =
     (case hours_violation tf e eid w h of None \<Rightarrow> Inr r | Some v \<Rightarrow> add_violation r v)"
  by (simp add: check_hours_compliance_def split: option.splits sum.splits)

lemma hours_violation_over:
  "employee_type e = FULL_TIME \<Longrightarrow> h > 38 \<Longrightarrow>
   \<exists>v. hours_violation tf e eid w h = Some v \<and> constraint_type v = HOURS_MAX \<and> severity v = 9 \<and>
       details v ''excess_hours'' = Some (PNum (h - 38)) \<and> details v ''alert_type'' = None"
  by (simp add: hours_violation_def)

lemma hours_violation_under:
  "employee_type e = FULL_TIME \<Longrightarrow> h < 35 \<Longrightarrow>
   \<exists>v. hours_violation tf e eid w h = Some v \<and> constraint_type v = HOURS_MIN \<and> severity v = 4 \<and>
       details v ''shortfall'' = Some (PNum (35 - h)) \<and> details v ''alert_type'' = None \<and>
       details v ''excess_hours'' = None"
  by (simp add: hours_violation_def)

lemma hours_violation_alert:
  "employee_type e = FULL_TIME \<Longrightarrow> 35 \<le> h \<Longrightarrow> h \<le> 38 \<Longrightarrow>
   \<exists>v. hours_violation tf e eid w h = Some v \<and> constraint_type v = HOURS_MAX \<and> severity v = 2 \<and>
       details v ''alert_type'' = Some (PStr ''approaching_limit'') \<and>
       details v ''excess_hours'' = None"
  by (simp add: hours_violation_def Let_def)

lemma hours_min_penalty:
  "constraint_type v = HOURS_MIN \<Longrightarrow> severity v = 4 \<Longrightarrow> details v ''alert_type'' = None \<Longrightarrow>
   calculate_soft_penalty v = Inr (1 / 10) \<and> \<not> is_hard_constraint v"
  by (simp add: calculate_soft_penalty_def is_informational_warning_def weights_def dict_get_def
                is_hard_constraint_def Let_def)

lemma alert_is_hard:
  "hours_violation tf e eid w h = Some v \<Longrightarrow>
   details v ''alert_type'' = Some (PStr ''approaching_limit'') \<Longrightarrow>
   constraint_type v = HOURS_MAX \<and> severity v = 2"
  by (cases "hours_limits (employee_type e)")
     (auto simp: hours_violation_def Let_def split: if_splits)

text \<open>
  Claim C1, as amended. For a Full-Time employee whose hours in the one week scheduled
  are \<open>h\<close>: at exactly 38.0 the check builds no over-maximum violation, what it hands
  to \<open>add_violation\<close> has severity 2 and no \<open>excess_hours\<close>; at 38.1, be it the
  decimal or a float within 1e-9 of it, the check adds one hard HOURS_MAX violation of
  severity 9 whose details carry \<open>excess_hours\<close> \<open>h - 38\<close>, within 1e-9 of 0.1; at
  33.0, which is below the Full-Time minimum of 35, it adds the HOURS_MIN soft warning
  of severity 4 (shortfall 2.0) without an \<open>alert_type\<close>, whose score penalty is 0.1.
  How the object built at 38.0 is filed and scored is not part of this statement.
\<close>

theorem C1_hours_check:
  assumes ft: "employee_type e = FULL_TIME"
      and one: "employee_weekly_hours s = [(eid, [(w, h)])]"
      and emp: "emps eid = Some e"
  shows "(h = 38 \<longrightarrow>
            (\<exists>v. hours_violation tf e eid w h = Some v \<and> severity v = 2 \<and>
                 details v ''excess_hours'' = None \<and>
                 check_hours_compliance tf s emps r = add_violation r v)) \<and>
         (\<bar>h - 381 / 10\<bar> \<le> 1 / 1000000000 \<longrightarrow>
            (\<exists>v x. hours_violation tf e eid w h = Some v \<and> constraint_type v = HOURS_MAX \<and>
                 severity v = 9 \<and> is_hard_constraint v \<and>
                 details v ''excess_hours'' = Some (PNum x) \<and>
                 x = h - 38 \<and> \<bar>x - 1 / 10\<bar> \<le> 1 / 1000000000 \<and>
                 check_hours_compliance tf s emps r =
                   Inr (r\<lparr>violations := violations r @ [v], is_compliant := False,
                          score := max 0 (score r - 18)\<rparr>))) \<and>
         (h = 33 \<longrightarrow>
            (\<exists>v. hours_violation tf e eid w h = Some v \<and> constraint_type v = HOURS_MIN \<and>
                 severity v = 4 \<and> \<not> is_hard_constraint v \<and>
                 details v ''alert_type'' = None \<and>
                 details v ''shortfall'' = Some (PNum 2) \<and>
                 calculate_soft_penalty v = Inr (1 / 10) \<and>
                 check_hours_compliance tf s emps r =
                   Inr (r\<lparr>warnings := warnings r @ [v], score := max 0 (score r - 1 / 10)\<rparr>)))"
proof (intro conjI impI)
  assume h: "h = 38"
  from hours_violation_alert [OF ft, of h tf eid w] h obtain v where
    v: "hours_violation tf e eid w h = Some v" "severity v = 2"
       "details v ''excess_hours'' = None" by auto
  have "check_hours_compliance tf s emps r = add_violation r v"
    using check_hours_single [where s=s and emps=emps and tf=tf and r=r, OF one emp] v(1) by simp
  with v show "\<exists>v. hours_violation tf e eid w h = Some v \<and> severity v = 2 \<and>
                 details v ''excess_hours'' = None \<and>
                 check_hours_compliance tf s emps r = add_violation r v" by blast
next
  assume h: "\<bar>h - 381 / 10\<bar> \<le> 1 / 1000000000"
  then have over: "h > 38" by linarith
  from hours_violation_over [OF ft over, of tf eid w] obtain v where
    v: "hours_violation tf e eid w h = Some v" "constraint_type v = HOURS_MAX" "severity v = 9"
       "details v ''excess_hours'' = Some (PNum (h - 38))" by auto
  have hard: "is_hard_constraint v" using v(2) by (simp add: is_hard_constraint_def)
  have near: "\<bar>(h - 38) - 1 / 10\<bar> \<le> 1 / 1000000000" using h by linarith
  have "check_hours_compliance tf s emps r =
          Inr (r\<lparr>violations := violations r @ [v], is_compliant := False,
                 score := max 0 (score r - 18)\<rparr>)"
    using check_hours_single [where s=s and emps=emps and tf=tf and r=r, OF one emp] v(1) v(3) hard
    by (simp add: add_violation_def)
  with v hard near show "\<exists>v x. hours_violation tf e eid w h = Some v \<and> constraint_type v = HOURS_MAX \<and>
                 severity v = 9 \<and> is_hard_constraint v \<and>
                 details v ''excess_hours'' = Some (PNum x) \<and>
                 x = h - 38 \<and> \<bar>x - 1 / 10\<bar> \<le> 1 / 1000000000 \<and>
                 check_hours_compliance tf s emps r =
                   Inr (r\<lparr>violations := violations r @ [v], is_compliant := False,
                          score := max 0 (score r - 18)\<rparr>)" by blast
next
  assume h: "h = 33"
  from hours_violation_under [OF ft, of h tf eid w] h obtain v where
    v: "hours_violation tf e eid w h = Some v" "constraint_type v = HOURS_MIN" "severity v = 4"
       "details v ''shortfall'' = Some (PNum 2)" "details v ''alert_type'' = None" by auto
  from hours_min_penalty [OF v(2) v(3) v(5)] have
    p: "calculate_soft_penalty v = Inr (1 / 10)" and soft: "\<not> is_hard_constraint v" by simp_all
  have "check_hours_compliance tf s emps r =
          Inr (r\<lparr>warnings := warnings r @ [v], score := max 0 (score r - 1 / 10)\<rparr>)"
    using check_hours_single [where s=s and emps=emps and tf=tf and r=r, OF one emp] v(1) p soft
    by (simp add: add_violation_def)
  with v p soft show "\<exists>v. hours_violation tf e eid w h = Some v \<and> constraint_type v = HOURS_MIN \<and>
                 severity v = 4 \<and> \<not> is_hard_constraint v \<and>
                 details v ''alert_type'' = None \<and>
                 details v ''shortfall'' = Some (PNum 2) \<and>
                 calculate_soft_penalty v = Inr (1 / 10) \<and>
                 check_hours_compliance tf s emps r =
                   Inr (r\<lparr>warnings := warnings r @ [v], score := max 0 (score r - 1 / 10)\<rparr>)"
    by blast
qed

lemma week_33_hours: "employee_weekly_hours week_33 = [(''E001'', [(0, 33)])]"
  by code_simp
lemma week_38_hours: "employee_weekly_hours week_38 = [(''E001'', [(0, 38)])]"
  by code_simp
lemma week_38_1_hours: "employee_weekly_hours week_38_1 = [(''E001'', [(0, float_38_1)])]"
  by code_simp
lemma float_38_1_near: "\<bar>float_38_1 - 381 / 10\<bar> \<le> 1 / 1000000000"
  by (simp add: float_38_1_def)
lemma alex_dict: "employees_dict [alex] ''E001'' = Some alex"
  by (simp add: employees_dict_def alex_def)
lemma alex_ft: "employee_type alex = FULL_TIME"
  by (simp add: alex_def)

theorem C1_hours_check_witness:
  "employee_type alex = FULL_TIME \<and>
   employee_weekly_hours week_33 = [(''E001'', [(0, 33)])] \<and>
   employee_weekly_hours week_38 = [(''E001'', [(0, 38)])] \<and>
   employee_weekly_hours week_38_1 = [(''E001'', [(0, float_38_1)])] \<and>
   \<bar>float_38_1 - 381 / 10\<bar> \<le> 1 / 1000000000 \<and>
   employees_dict [alex] ''E001'' = Some alex \<and>
   (\<exists>v. check_hours_compliance blank_text week_33 (employees_dict [alex]) new_result =
          Inr (new_result\<lparr>warnings := [v], score := 999 / 10\<rparr>) \<and> constraint_type v = HOURS_MIN) \<and>
   (\<exists>v. check_hours_compliance blank_text week_38_1 (employees_dict [alex]) new_result =
          Inr (new_result\<lparr>violations := [v], is_compliant := False, score := 82\<rparr>) \<and>
        details v ''excess_hours'' = Some (PNum (14073748835533 / 140737488355328))) \<and>
   (\<exists>v. hours_violation blank_text alex ''E001'' 0 38 = Some v \<and>
        details v ''excess_hours'' = None)"
proof -
  have sc: "score new_result = 100" "warnings new_result = []" "violations new_result = []"
    by (simp_all add: new_result_def)
  from C1_hours_check [where emps="employees_dict [alex]" and tf=blank_text and r=new_result, OF alex_ft week_33_hours alex_dict]
  have a: "\<exists>v. check_hours_compliance blank_text week_33 (employees_dict [alex]) new_result =
          Inr (new_result\<lparr>warnings := [v], score := 999 / 10\<rparr>) \<and> constraint_type v = HOURS_MIN"
    using sc by auto
  have x: "float_38_1 - 38 = 14073748835533 / 140737488355328" by (simp add: float_38_1_def)
  from C1_hours_check [where emps="employees_dict [alex]" and tf=blank_text and r=new_result, OF alex_ft week_38_1_hours alex_dict]
       float_38_1_near
  have b: "\<exists>v. check_hours_compliance blank_text week_38_1 (employees_dict [alex]) new_result =
          Inr (new_result\<lparr>violations := [v], is_compliant := False, score := 82\<rparr>) \<and>
        details v ''excess_hours'' = Some (PNum (14073748835533 / 140737488355328))"
    using sc x by auto
  from C1_hours_check [where emps="employees_dict [alex]" and tf=blank_text and r=new_result, OF alex_ft week_38_hours alex_dict]
  have c: "\<exists>v. hours_violation blank_text alex ''E001'' 0 38 = Some v \<and>
        details v ''excess_hours'' = None"
    by auto
  from a b c alex_ft week_33_hours week_38_hours week_38_1_hours float_38_1_near alex_dict
  show ?thesis by blast
qed

text \<open>
  Claim C1 as stated fails at 33.0 hours and at 38.0 hours. The check of a week of
  12 + 12 + 9 hours for a Full-Time employee returns one HOURS_MIN warning without an
  \<open>alert_type\<close>, and the score drops by 0.1. The check of a week of 12 + 9 + 9 + 8
  hours returns a result whose hard-violation list holds one entry of type HOURS_MAX,
  which is not compliant and whose score has dropped by 4.
\<close>

theorem C1_counterexample:
  "\<not> isl (check_hours_compliance blank_text week_33 (employees_dict [alex]) new_result) \<and>
   violations (projr (check_hours_compliance blank_text week_33 (employees_dict [alex]) new_result)) = [] \<and>
   map constraint_type
     (warnings (projr (check_hours_compliance blank_text week_33 (employees_dict [alex]) new_result)))
     = [HOURS_MIN] \<and>
   details (hd (warnings (projr (check_hours_compliance blank_text week_33 (employees_dict [alex])
                                   new_result)))) ''alert_type'' = None \<and>
   score (projr (check_hours_compliance blank_text week_33 (employees_dict [alex]) new_result))
     = 100 - 1 / 10 \<and>
   \<not> isl (check_hours_compliance blank_text week_38 (employees_dict [alex]) new_result) \<and>
   map constraint_type
     (violations (projr (check_hours_compliance blank_text week_38 (employees_dict [alex]) new_result)))
     = [HOURS_MAX] \<and>
   \<not> is_compliant (projr (check_hours_compliance blank_text week_38 (employees_dict [alex])
                             new_result)) \<and>
   score (projr (check_hours_compliance blank_text week_38 (employees_dict [alex]) new_result))
     = 100 - 4"
proof -
  have a: "\<exists>v. check_hours_compliance blank_text week_33 (employees_dict [alex]) new_result =
             Inr (new_result\<lparr>warnings := [v], score := 999 / 10\<rparr>) \<and>
             constraint_type v = HOURS_MIN \<and> details v ''alert_type'' = None"
    using check_hours_single [where emps="employees_dict [alex]" and tf=blank_text and r=new_result, OF week_33_hours alex_dict]
          hours_violation_under [OF alex_ft, of 33 blank_text "''E001''" 0]
          hours_min_penalty
    by (auto simp: add_violation_def new_result_def)
  have b: "\<exists>v. check_hours_compliance blank_text week_38 (employees_dict [alex]) new_result =
             Inr (new_result\<lparr>violations := [v], is_compliant := False, score := 96\<rparr>) \<and>
             constraint_type v = HOURS_MAX"
    using check_hours_single [where emps="employees_dict [alex]" and tf=blank_text and r=new_result, OF week_38_hours alex_dict]
          hours_violation_alert [OF alex_ft, of 38 blank_text "''E001''" 0]
    by (auto simp: add_violation_def new_result_def is_hard_constraint_def)
  from a b show ?thesis by (auto simp: new_result_def)
qed

text \<open>
  Claim C3. The claim has every violation whose details carry \<open>alert_type\<close>
  \<open>approaching_limit\<close> lower the score by exactly zero, and \<open>calculate_soft_penalty\<close>
  gives such a violation the penalty 0. The approaching-limit alert that the hours check
  builds has the type HOURS_MAX, which \<open>is_hard_constraint\<close> counts as hard:
  \<open>add_violation\<close> files it with the hard violations, makes the result non-compliant
  and lowers the score by twice its severity, 4 points, without consulting
  \<open>calculate_soft_penalty\<close>. So the code departs from the claim, and from its own
  zero-penalty rule, on every alert it builds.
\<close>

theorem C3_alert_penalty:
  assumes built: "hours_violation tf e eid w h = Some v"
      and alert: "details v ''alert_type'' = Some (PStr ''approaching_limit'')"
  shows "spec_informational v \<and> calculate_soft_penalty v = Inr 0 \<and>
         is_hard_constraint v \<and> severity v = 2 \<and>
         add_violation r v =
           Inr (r\<lparr>violations := violations r @ [v], is_compliant := False,
                  score := max 0 (score r - 4)\<rparr>)"
proof -
  have i: "spec_informational v" using alert by (simp add: spec_informational_def)
  have p: "calculate_soft_penalty v = Inr 0"
    using informational_penalty [OF spec_informational_code [OF i]] .
  from alert_is_hard [OF built alert]
  have t: "constraint_type v = HOURS_MAX" and s: "severity v = 2" by simp_all
  have h: "is_hard_constraint v" using t by (simp add: is_hard_constraint_def)
  have "add_violation r v =
           Inr (r\<lparr>violations := violations r @ [v], is_compliant := False,
                  score := max 0 (score r - 4)\<rparr>)"
    using h s by (simp add: add_violation_def)
  with i p h s show ?thesis by blast
qed

theorem C3_alert_penalty_witness:
  "\<exists>v. hours_violation blank_text alex ''E001'' 0 38 = Some v \<and>
       details v ''alert_type'' = Some (PStr ''approaching_limit'') \<and>
       spec_informational v \<and> calculate_soft_penalty v = Inr 0 \<and> is_hard_constraint v \<and>
       check_hours_compliance blank_text week_38 (employees_dict [alex]) new_result =
         Inr (new_result\<lparr>violations := [v], is_compliant := False, score := 96\<rparr>)"
proof -
  have "\<exists>v. hours_violation blank_text alex ''E001'' 0 38 = Some v \<and>
            details v ''alert_type'' = Some (PStr ''approaching_limit'')"
    by (simp add: hours_violation_def Let_def alex_def)
  then obtain v where
    b: "hours_violation blank_text alex ''E001'' 0 38 = Some v" and
    a: "details v ''alert_type'' = Some (PStr ''approaching_limit'')" by blast
  have c: "check_hours_compliance blank_text week_38 (employees_dict [alex]) new_result =
             add_violation new_result v"
    using check_hours_single [where emps="employees_dict [alex]" and tf=blank_text
                                and r=new_result, OF week_38_hours alex_dict] b by simp
  have n: "violations new_result = []" "score new_result = 100" by (simp_all add: new_result_def)
  from C3_alert_penalty [OF b a, of new_result] c n
  have "spec_informational v \<and> calculate_soft_penalty v = Inr 0 \<and> is_hard_constraint v \<and>
        check_hours_compliance blank_text week_38 (employees_dict [alex]) new_result =
         Inr (new_result\<lparr>violations := [v], is_compliant := False, score := 96\<rparr>)"
    by simp
  with a b show ?thesis by blast
qed

section \<open>Rest-period check\<close>

lemma strip_1F: "strip ''1F'' = ''1F''"
  by code_simp

lemma strip_2F: "strip ''2F'' = ''2F''"
  by code_simp

lemma from_code_1F:
  "from_code ''1F'' d = Some \<lparr>shift_type = FIRST_HALF, date = d, start_time = (6, 30),
                               end_time = (15, 30), hours = 9, break_minutes = 30\<rparr>"
  by (simp add: from_code_def shift_configs_def ShiftType_from_code_def upper_char_def strip_1F)

lemma from_code_2F:
  "from_code ''2F'' d = Some \<lparr>shift_type = SECOND_HALF, date = d, start_time = (14, 0),
                               end_time = (23, 0), hours = 9, break_minutes = 30\<rparr>"
  by (simp add: from_code_def shift_configs_def ShiftType_from_code_def upper_char_def strip_2F)

lemma check_rest_single:
  "employee_assignments s = [(eid, xs)] \<Longrightarrow> emps eid = Some e \<Longrightarrow>
   check_rest_period_compliance tf s emps r =
     check_pairs tf e eid (sort_key (\<lambda>a. (date (shift a), start_time (shift a))) xs) r"
  by (simp add: check_rest_period_compliance_def split: sum.splits)

lemma sort_two:
  "date (shift a) < date (shift b) \<Longrightarrow> xs = [a, b] \<or> xs = [b, a] \<Longrightarrow>
   sort_key (\<lambda>a. (date (shift a), start_time (shift a))) xs = [a, b]"
  by auto

text \<open>
  Claim C6. For an employee known to the validator whose only assignments are a 1F
  shift on day \<open>d\<close> and a 2F shift on day \<open>d + 1\<close>, the rest computed is 22.5 hours and
  the rest-period check adds nothing; when they are a 2F shift on day \<open>d\<close> and a 1F
  shift on day \<open>d + 1\<close>, the rest computed is 7.5 hours and the check adds exactly one
  violation: hard, of type REST_PERIOD and severity 10, dated with the later shift's
  date. The order of the two assignments in the schedule does not matter.
\<close>

theorem C6_rest_period:
  assumes a1: "from_code ''1F'' d = Some (shift a1)"
      and a2: "from_code ''2F'' (d + 1) = Some (shift a2)"
      and b1: "from_code ''2F'' d = Some (shift b1)"
      and b2: "from_code ''1F'' (d + 1) = Some (shift b2)"
      and emp: "emps eid = Some e"
  shows "hours_until_next (shift a1) (shift a2) = 45 / 2 \<and>
         (employee_assignments s = [(eid, [a1, a2])] \<or> employee_assignments s = [(eid, [a2, a1])]
            \<longrightarrow> check_rest_period_compliance tf s emps r = Inr r) \<and>
         hours_until_next (shift b1) (shift b2) = 15 / 2 \<and>
         (employee_assignments s' = [(eid, [b1, b2])] \<or> employee_assignments s' = [(eid, [b2, b1])]
            \<longrightarrow> (\<exists>v. check_rest_period_compliance tf s' emps r =
                       Inr (r\<lparr>violations := violations r @ [v], is_compliant := False,
                              score := max 0 (score r - 20)\<rparr>) \<and>
                     constraint_type v = REST_PERIOD \<and> severity v = 10 \<and>
                     is_hard_constraint v \<and> affected_date v = Some (date (shift b2)) \<and>
                     date (shift b2) = d + 1 \<and>
                     details v ''rest_hours'' = Some (PNum (15 / 2))))"
proof -
  from a1 a2 b1 b2 have
    sa1: "shift a1 = \<lparr>shift_type = FIRST_HALF, date = d, start_time = (6, 30),
                      end_time = (15, 30), hours = 9, break_minutes = 30\<rparr>" and
    sa2: "shift a2 = \<lparr>shift_type = SECOND_HALF, date = d + 1, start_time = (14, 0),
                      end_time = (23, 0), hours = 9, break_minutes = 30\<rparr>" and
    sb1: "shift b1 = \<lparr>shift_type = SECOND_HALF, date = d, start_time = (14, 0),
                      end_time = (23, 0), hours = 9, break_minutes = 30\<rparr>" and
    sb2: "shift b2 = \<lparr>shift_type = FIRST_HALF, date = d + 1, start_time = (6, 30),
                      end_time = (15, 30), hours = 9, break_minutes = 30\<rparr>"
    by (simp_all add: from_code_1F from_code_2F)
  have ra: "hours_until_next (shift a1) (shift a2) = 45 / 2"
    by (simp add: sa1 sa2 hours_until_next_def get_end_datetime_def get_start_datetime_def
                  total_seconds_def seconds_of_day_def Let_def)
  have rb: "hours_until_next (shift b1) (shift b2) = 15 / 2"
    by (simp add: sb1 sb2 hours_until_next_def get_end_datetime_def get_start_datetime_def
                  total_seconds_def seconds_of_day_def Let_def)
  have none: "rest_violation tf e eid a1 a2 = None"
    by (simp add: rest_violation_def ra min_rest_hours_def Let_def)
  have "\<exists>v. rest_violation tf e eid b1 b2 = Some v \<and> constraint_type v = REST_PERIOD \<and>
      severity v = 10 \<and> affected_date v = Some (date (shift b2)) \<and>
      details v ''rest_hours'' = Some (PNum (15 / 2))"
    by (simp add: rest_violation_def rb min_rest_hours_def Let_def)
  then obtain v where v: "rest_violation tf e eid b1 b2 = Some v" "constraint_type v = REST_PERIOD"
      "severity v = 10" "affected_date v = Some (date (shift b2))"
      "details v ''rest_hours'' = Some (PNum (15 / 2))"
    by blast
  have hard: "is_hard_constraint v" using v(2) by (simp add: is_hard_constraint_def)
  have A: "employee_assignments s = [(eid, [a1, a2])] \<or> employee_assignments s = [(eid, [a2, a1])]
            \<longrightarrow> check_rest_period_compliance tf s emps r = Inr r"
  proof
    assume "employee_assignments s = [(eid, [a1, a2])] \<or> employee_assignments s = [(eid, [a2, a1])]"
    then obtain xs where xs: "employee_assignments s = [(eid, xs)]" "xs = [a1, a2] \<or> xs = [a2, a1]"
      by blast
    have lt: "date (shift a1) < date (shift a2)" by (simp add: sa1 sa2)
    show "check_rest_period_compliance tf s emps r = Inr r"
      using check_rest_single [where s=s and emps=emps and tf=tf and r=r, OF xs(1) emp]
            sort_two [OF lt xs(2)] none by simp
  qed
  have B: "employee_assignments s' = [(eid, [b1, b2])] \<or> employee_assignments s' = [(eid, [b2, b1])]
            \<longrightarrow> check_rest_period_compliance tf s' emps r =
                       Inr (r\<lparr>violations := violations r @ [v], is_compliant := False,
                              score := max 0 (score r - 20)\<rparr>)"
  proof
    assume "employee_assignments s' = [(eid, [b1, b2])] \<or> employee_assignments s' = [(eid, [b2, b1])]"
    then obtain xs where xs: "employee_assignments s' = [(eid, xs)]" "xs = [b1, b2] \<or> xs = [b2, b1]"
      by blast
    have lt: "date (shift b1) < date (shift b2)" by (simp add: sb1 sb2)
    show "check_rest_period_compliance tf s' emps r =
                       Inr (r\<lparr>violations := violations r @ [v], is_compliant := False,
                              score := max 0 (score r - 20)\<rparr>)"
      using check_rest_single [where s=s' and emps=emps and tf=tf and r=r, OF xs(1) emp]
            sort_two [OF lt xs(2)] v(1) v(3) hard by (simp add: add_violation_def)
  qed
  have d2: "date (shift b2) = d + 1" by (simp add: sb2)
  from ra rb A B v hard d2 show ?thesis by blast
qed

lemma early_late_groups:
  "\<exists>a1 a2. employee_assignments early_then_late = [(''E001'', [a1, a2])] \<and>
     from_code ''1F'' 739000 = Some (shift a1) \<and> from_code ''2F'' (739000 + 1) = Some (shift a2)"
  by (simp add: early_then_late_def add_coded_def from_code_1F from_code_2F employee_assignments_def
                add_assignment_def new_schedule_def new_assignment_def alex_def)

lemma late_early_groups:
  "\<exists>b1 b2. employee_assignments late_then_early = [(''E001'', [b1, b2])] \<and>
     from_code ''2F'' 739000 = Some (shift b1) \<and> from_code ''1F'' (739000 + 1) = Some (shift b2)"
  by (simp add: late_then_early_def add_coded_def from_code_1F from_code_2F employee_assignments_def
                add_assignment_def new_schedule_def new_assignment_def alex_def)

theorem C6_rest_period_witness:
  "employees_dict [alex] ''E001'' = Some alex \<and>
   check_rest_period_compliance blank_text early_then_late (employees_dict [alex]) new_result
     = Inr new_result \<and>
   (\<exists>v. check_rest_period_compliance blank_text late_then_early (employees_dict [alex]) new_result
          = Inr (new_result\<lparr>violations := [v], is_compliant := False, score := 80\<rparr>) \<and>
        severity v = 10 \<and> affected_date v = Some 739001)"
proof -
  from early_late_groups obtain a1 a2 where
    a: "employee_assignments early_then_late = [(''E001'', [a1, a2])]"
       "from_code ''1F'' 739000 = Some (shift a1)" "from_code ''2F'' (739000 + 1) = Some (shift a2)"
    by blast
  from late_early_groups obtain b1 b2 where
    b: "employee_assignments late_then_early = [(''E001'', [b1, b2])]"
       "from_code ''2F'' 739000 = Some (shift b1)" "from_code ''1F'' (739000 + 1) = Some (shift b2)"
    by blast
  have sc: "score new_result = 100" "violations new_result = []" by (simp_all add: new_result_def)
  from C6_rest_period [where emps="employees_dict [alex]" and tf=blank_text and r=new_result
                        and s=early_then_late and s'=late_then_early,
                        OF a(2) a(3) b(2) b(3) alex_dict] a(1) b(1) sc
  have "check_rest_period_compliance blank_text early_then_late (employees_dict [alex]) new_result
          = Inr new_result \<and>
        (\<exists>v. check_rest_period_compliance blank_text late_then_early (employees_dict [alex]) new_result
          = Inr (new_result\<lparr>violations := [v], is_compliant := False, score := 80\<rparr>) \<and>
        severity v = 10 \<and> affected_date v = Some 739001)"
    by auto
  with alex_dict show ?thesis by blast
qed

section \<open>Schedule: the assignment list and its indexes\<close>

lemma py_in_remove: "py_in a xs \<Longrightarrow> \<exists>ys. py_remove a xs = Inr ys"
  by (induction xs) (auto simp: py_in_def)

lemma py_remove_filter_same:
  "py_remove a xs = Inr ys \<Longrightarrow> (\<forall>x. assignment_eq x a \<longrightarrow> P x) \<Longrightarrow>
   py_remove a (filter P xs) = Inr (filter P ys)"
proof (induction xs arbitrary: ys)
  case Nil
  then show ?case by simp
next
  case (Cons x xs)
  show ?case
  proof (cases "assignment_eq x a")
    case True
    then have "ys = xs" "P x" using Cons.prems by simp_all
    then show ?thesis using True by simp
  next
    case False
    then obtain zs where zs: "py_remove a xs = Inr zs" "ys = x # zs"
      using Cons.prems(1) by (cases "py_remove a xs") simp_all
    have "py_remove a (filter P xs) = Inr (filter P zs)"
      using Cons.IH [OF zs(1) Cons.prems(2)] .
    then show ?thesis using zs(2) False by simp
  qed
qed

lemma py_remove_filter_other:
  "py_remove a xs = Inr ys \<Longrightarrow> (\<forall>x. assignment_eq x a \<longrightarrow> \<not> Q x) \<Longrightarrow>
   filter Q ys = filter Q xs"
proof (induction xs arbitrary: ys)
  case Nil
  then show ?case by simp
next
  case (Cons x xs)
  show ?case
  proof (cases "assignment_eq x a")
    case True
    then have "ys = xs" "\<not> Q x" using Cons.prems by simp_all
    then show ?thesis by simp
  next
    case False
    then obtain zs where zs: "py_remove a xs = Inr zs" "ys = x # zs"
      using Cons.prems(1) by (cases "py_remove a xs") simp_all
    have "filter Q zs = filter Q xs"
      using Cons.IH [OF zs(1) Cons.prems(2)] .
    then show ?thesis using zs(2) by simp
  qed
qed

lemma index_of_append:
  "index_of key idx xs \<Longrightarrow> index_of key (dd_append idx (key a) a) (xs @ [a])"
  by (simp add: index_of_def dd_append_def dict_get_def)

lemma index_of_remove:
  assumes idx: "index_of key idx xs"
      and rem: "py_remove a xs = Inr ys"
      and same: "\<forall>x. assignment_eq x a \<longrightarrow> key x = key a"
  shows "\<exists>idx'. dd_remove idx (key a) a = (None, idx') \<and> index_of key idx' ys"
proof -
  have at: "dict_get idx (key a) [] = filter (\<lambda>x. key x = key a) xs"
    using idx by (simp add: index_of_def)
  have r: "py_remove a (filter (\<lambda>x. key x = key a) xs) = Inr (filter (\<lambda>x. key x = key a) ys)"
    by (rule py_remove_filter_same [OF rem same])
  have other: "filter (\<lambda>x. key x = k) ys = filter (\<lambda>x. key x = k) xs" if "k \<noteq> key a" for k
  proof (rule py_remove_filter_other [OF rem])
    show "\<forall>x. assignment_eq x a \<longrightarrow> \<not> key x = k" using same that by simp
  qed
  let ?idx' = "idx(key a \<mapsto> filter (\<lambda>x. key x = key a) ys)"
  have d: "dd_remove idx (key a) a = (None, ?idx')"
    using at r by (simp add: dd_remove_def Let_def)
  have "index_of key ?idx' ys"
    unfolding index_of_def
  proof
    fix k
    show "dict_get ?idx' k [] = filter (\<lambda>x. key x = k) ys"
    proof (cases "k = key a")
      case True
      then show ?thesis by (simp add: dict_get_def)
    next
      case False
      have "dict_get ?idx' k [] = dict_get idx k []" using False by (simp add: dict_get_def)
      also have "\<dots> = filter (\<lambda>x. key x = k) xs" using idx by (simp add: index_of_def)
      also have "\<dots> = filter (\<lambda>x. key x = k) ys" using other [OF False] by simp
      finally show ?thesis .
    qed
  qed
  with d show ?thesis by blast
qed

lemma add_assignment_consistent:
  assumes "indexes_consistent s"
  shows "indexes_consistent (add_assignment s a)"
proof -
  from assms have i1: "index_of (\<lambda>a. date (shift a)) (by_date s) (assignments s)"
    and i2: "index_of (\<lambda>a. emp_id (employee a)) (by_employee s) (assignments s)"
    and i3: "index_of station (by_station s) (assignments s)"
    by (simp_all add: indexes_consistent_def)
  from index_of_append [OF i1, of a] index_of_append [OF i2, of a] index_of_append [OF i3, of a]
  show ?thesis by (simp add: indexes_consistent_def add_assignment_def)
qed

lemma remove_locked: "is_locked a \<Longrightarrow> remove_assignment s a = (Inr False, s)"
  by (simp add: remove_assignment_def)

lemma eq_same_date: "\<forall>x. assignment_eq x a \<longrightarrow> date (shift x) = date (shift a)"
  by (simp add: assignment_eq_def)

lemma eq_same_employee: "\<forall>x. assignment_eq x a \<longrightarrow> emp_id (employee x) = emp_id (employee a)"
  by (simp add: assignment_eq_def employee_eq_def)

lemma eq_same_station: "\<forall>x. assignment_eq x a \<longrightarrow> station x = station a"
  by (simp add: assignment_eq_def)

lemma remove_assignment_consistent:
  assumes c: "indexes_consistent s"
  shows "\<exists>b s'. remove_assignment s a = (Inr b, s') \<and> indexes_consistent s'"
proof (cases "is_locked a \<or> \<not> py_in a (assignments s)")
  case True
  then have "remove_assignment s a = (Inr False, s)" by (auto simp: remove_assignment_def)
  with c show ?thesis by blast
next
  case False
  then have nl: "\<not> is_locked a" and inn: "py_in a (assignments s)" by simp_all
  from py_in_remove [OF inn] obtain ys where ys: "py_remove a (assignments s) = Inr ys" by blast
  from c have i1: "index_of (\<lambda>a. date (shift a)) (by_date s) (assignments s)"
    and i2: "index_of (\<lambda>a. emp_id (employee a)) (by_employee s) (assignments s)"
    and i3: "index_of station (by_station s) (assignments s)"
    by (simp_all add: indexes_consistent_def)
  from index_of_remove [OF i1 ys eq_same_date] obtain bd where
    bd: "dd_remove (by_date s) (date (shift a)) a = (None, bd)"
        "index_of (\<lambda>a. date (shift a)) bd ys"
    by blast
  from index_of_remove [OF i2 ys eq_same_employee] obtain be where
    be: "dd_remove (by_employee s) (emp_id (employee a)) a = (None, be)"
        "index_of (\<lambda>a. emp_id (employee a)) be ys"
    by blast
  from index_of_remove [OF i3 ys eq_same_station] obtain bs where
    bs: "dd_remove (by_station s) (station a) a = (None, bs)" "index_of station bs ys"
    by blast
  have "remove_assignment s a =
          (Inr True, s\<lparr>assignments := ys, by_date := bd, by_employee := be, by_station := bs\<rparr>)"
    using nl inn ys bd(1) be(1) bs(1) by (simp add: remove_assignment_def Let_def)
  moreover have "indexes_consistent
                   (s\<lparr>assignments := ys, by_date := bd, by_employee := be, by_station := bs\<rparr>)"
    using bd(2) be(2) bs(2) by (simp add: indexes_consistent_def)
  ultimately show ?thesis by blast
qed

lemma run_ops_consistent:
  "indexes_consistent s \<Longrightarrow> \<exists>s'. run_ops s ops = Inr s' \<and> indexes_consistent s'"
proof (induction ops arbitrary: s)
  case Nil
  then show ?case by simp
next
  case (Cons op ops)
  show ?case
  proof (cases op)
    case (Add a)
    from Cons.IH [OF add_assignment_consistent [OF Cons.prems, of a]]
    show ?thesis using Add by simp
  next
    case (Remove a)
    from remove_assignment_consistent [OF Cons.prems, of a] obtain b s1 where
      r: "remove_assignment s a = (Inr b, s1)" "indexes_consistent s1" by blast
    from Cons.IH [OF r(2)] show ?thesis using Remove r(1) by simp
  qed
qed

lemma count_in_index:
  assumes idx: "index_of key idx xs" and same: "\<forall>x. assignment_eq x a \<longrightarrow> key x = key a"
  shows "py_count a (dict_get idx k []) = (if k = key a then py_count a xs else 0)"
proof (cases "k = key a")
  case True
  have "filter (\<lambda>x. assignment_eq x a) (filter (\<lambda>x. key x = k) xs) =
        filter (\<lambda>x. assignment_eq x a) xs"
    using same True by (induction xs) simp_all
  then show ?thesis using idx True by (simp add: py_count_def index_of_def)
next
  case False
  have "filter (\<lambda>x. assignment_eq x a) (filter (\<lambda>x. key x = k) xs) = []"
    using same False by (induction xs) auto
  then show ?thesis using idx False by (simp add: py_count_def index_of_def)
qed

lemma new_schedule_consistent: "indexes_consistent (new_schedule sd ed sid)"
  by (simp add: indexes_consistent_def index_of_def new_schedule_def dict_get_def)

text \<open>
  Claim C5. From a schedule whose three indexes agree with its assignment list (as
  they do in a new schedule), every finite sequence of \<open>add_assignment\<close> and
  \<open>remove_assignment\<close> calls runs without raising and ends in a schedule where every
  assignment occurs in the by-date, by-employee and by-station lookups under its own
  key exactly as often as in the assignment list, and under no other key. Removing a
  locked assignment returns False and leaves the schedule, list and indexes, as it was.
\<close>

theorem C5_schedule_indexes:
  assumes c: "indexes_consistent s"
  shows "(\<exists>s'. run_ops s ops = Inr s' \<and> indexes_consistent s' \<and>
            (\<forall>a d e st.
               py_count a (get_assignments_by_date s' d) =
                 (if d = date (shift a) then py_count a (assignments s') else 0) \<and>
               py_count a (get_assignments_by_employee s' e) =
                 (if e = emp_id (employee a) then py_count a (assignments s') else 0) \<and>
               py_count a (get_assignments_by_station s' st) =
                 (if st = station a then py_count a (assignments s') else 0))) \<and>
         (is_locked a \<longrightarrow> remove_assignment s a = (Inr False, s))"
proof -
  from run_ops_consistent [OF c, of ops] obtain s' where
    s': "run_ops s ops = Inr s'" "indexes_consistent s'" by blast
  from s'(2) have i1: "index_of (\<lambda>a. date (shift a)) (by_date s') (assignments s')"
    and i2: "index_of (\<lambda>a. emp_id (employee a)) (by_employee s') (assignments s')"
    and i3: "index_of station (by_station s') (assignments s')"
    by (simp_all add: indexes_consistent_def)
  have counts: "\<forall>a d e st.
               py_count a (get_assignments_by_date s' d) =
                 (if d = date (shift a) then py_count a (assignments s') else 0) \<and>
               py_count a (get_assignments_by_employee s' e) =
                 (if e = emp_id (employee a) then py_count a (assignments s') else 0) \<and>
               py_count a (get_assignments_by_station s' st) =
                 (if st = station a then py_count a (assignments s') else 0)"
    using count_in_index [OF i1 eq_same_date] count_in_index [OF i2 eq_same_employee]
          count_in_index [OF i3 eq_same_station]
    by (simp add: get_assignments_by_date_def get_assignments_by_employee_def
                  get_assignments_by_station_def)
  from s' counts remove_locked [of a s]
  show ?thesis by blast
qed

theorem C5_schedule_indexes_witness:
  "indexes_consistent (new_schedule 739000 739013 ''Store_1'') \<and>
   (\<exists>s'. run_ops (new_schedule 739000 739013 ''Store_1'')
                  [Add alex_morning, Add alex_locked, Remove alex_morning, Remove alex_locked]
            = Inr s' \<and>
          assignments s' = [alex_locked] \<and>
          py_count alex_locked (get_assignments_by_date s' 739000) = 1 \<and>
          py_count alex_locked (get_assignments_by_employee s' ''E001'') = 1 \<and>
          py_count alex_locked (get_assignments_by_station s' KITCHEN) = 1 \<and>
          py_count alex_morning (get_assignments_by_date s' 739000) = 0) \<and>
   is_locked alex_locked \<and>
   remove_assignment (new_schedule 739000 739013 ''Store_1'') alex_locked =
     (Inr False, new_schedule 739000 739013 ''Store_1'')"
proof -
  let ?s = "new_schedule 739000 739013 ''Store_1''"
  let ?ops = "[Add alex_morning, Add alex_locked, Remove alex_morning, Remove alex_locked]"
  have l: "is_locked alex_locked" by (simp add: alex_locked_def)
  have c0: "indexes_consistent ?s" by (rule new_schedule_consistent)
  from C5_schedule_indexes [OF c0, of ?ops alex_locked] l
  obtain s' where s': "run_ops ?s ?ops = Inr s'"
      "\<forall>a d e st.
               py_count a (get_assignments_by_date s' d) =
                 (if d = date (shift a) then py_count a (assignments s') else 0) \<and>
               py_count a (get_assignments_by_employee s' e) =
                 (if e = emp_id (employee a) then py_count a (assignments s') else 0) \<and>
               py_count a (get_assignments_by_station s' st) =
                 (if st = station a then py_count a (assignments s') else 0)"
      and rl: "remove_assignment ?s alex_locked = (Inr False, ?s)"
    by blast
  have e1: "assignment_eq alex_morning alex_morning" "\<not> assignment_eq alex_locked alex_morning"
           "\<not> assignment_eq alex_morning alex_locked" "assignment_eq alex_locked alex_locked"
    by (simp_all add: assignment_eq_def employee_eq_def alex_morning_def alex_locked_def
                      new_assignment_def)
  have r1: "remove_assignment (add_assignment (add_assignment ?s alex_morning) alex_locked) alex_morning
            = (Inr True, add_assignment ?s alex_locked)"
    using e1 by (simp add: remove_assignment_def add_assignment_def new_schedule_def dd_append_def
                           dd_remove_def dict_get_def py_in_def Let_def alex_morning_def
                           alex_locked_def new_assignment_def fun_upd_twist)
  have "run_ops ?s ?ops = Inr (add_assignment ?s alex_locked)"
    using r1 l by (simp add: remove_assignment_def)
  with s'(1) have as: "assignments s' = [alex_locked]"
    by (simp add: add_assignment_def new_schedule_def)
  have k: "date (shift alex_locked) = 739000" "emp_id (employee alex_locked) = ''E001''"
          "station alex_locked = KITCHEN" "date (shift alex_morning) = 739000"
    by (simp_all add: alex_locked_def alex_morning_def new_assignment_def morning_shift_def alex_def)
  have cnt: "py_count alex_locked [alex_locked] = 1" "py_count alex_morning [alex_locked] = 0"
    using e1 by (simp_all add: py_count_def)
  from s'(2) as k cnt have
    "py_count alex_locked (get_assignments_by_date s' 739000) = 1 \<and>
     py_count alex_locked (get_assignments_by_employee s' ''E001'') = 1 \<and>
     py_count alex_locked (get_assignments_by_station s' KITCHEN) = 1 \<and>
     py_count alex_morning (get_assignments_by_date s' 739000) = 0"
    by simp
  with c0 s'(1) as l rl show ?thesis by blast
qed

section \<open>Applying a swap to a locked assignment\<close>

text \<open>
  Claim C9. When the only change of a resolution is a swap of a locked assignment
  that is in the schedule, \<open>_apply_resolution\<close> returns True; the removal fails
  unnoticed, the replacement assignment is appended, and the schedule then holds both
  the locked original and the replacement employee on the same shift and station.
\<close>

theorem C9_locked_swap:
  assumes locked: "is_locked a"
      and present: "a \<in> set (assignments (cr_schedule cr))"
      and ch: "changes res = [Swap (Some a) (Some new_employee)]"
  shows "\<exists>cr'. apply_resolution tf res cr = (True, cr') \<and>
           cr_schedule cr' =
             add_assignment (cr_schedule cr) (new_assignment new_employee (shift a) (station a)) \<and>
           assignments (cr_schedule cr') =
             assignments (cr_schedule cr) @ [new_assignment new_employee (shift a) (station a)] \<and>
           a \<in> set (assignments (cr_schedule cr')) \<and>
           employee (last (assignments (cr_schedule cr'))) = new_employee \<and>
           shift (last (assignments (cr_schedule cr'))) = shift a \<and>
           station (last (assignments (cr_schedule cr'))) = station a"
proof -
  let ?n = "new_assignment new_employee (shift a) (station a)"
  have c: "apply_changes (changes res) (cr_schedule cr) = (None, add_assignment (cr_schedule cr) ?n)"
    using ch remove_locked [OF locked] by simp
  have r: "apply_resolution tf res cr =
             (True, cr\<lparr>cr_schedule := add_assignment (cr_schedule cr) ?n,
                       resolution_history := resolution_history cr @
                         [(str_resolution tf res, length (changes res))]\<rparr>)"
    using c by (simp add: apply_resolution_def)
  have l: "assignments (add_assignment (cr_schedule cr) ?n) = assignments (cr_schedule cr) @ [?n]"
    by (simp add: add_assignment_def)
  have f: "employee ?n = new_employee" "shift ?n = shift a" "station ?n = station a"
    by (simp_all add: new_assignment_def)
  from r l f present show ?thesis by simp
qed

theorem C9_locked_swap_witness:
  "is_locked alex_locked \<and>
   alex_locked \<in> set (assignments locked_day) \<and>
   changes swap_to_blake = [Swap (Some alex_locked) (Some blake)] \<and>
   fst (apply_resolution blank_text swap_to_blake
          \<lparr>cr_schedule = locked_day, resolution_history = []\<rparr>) = True \<and>
   map (\<lambda>x. (emp_id (employee x), shift x, station x))
       (assignments (cr_schedule (snd (apply_resolution blank_text swap_to_blake
          \<lparr>cr_schedule = locked_day, resolution_history = []\<rparr>)))) =
     [(''E001'', morning_shift, KITCHEN), (''E002'', morning_shift, KITCHEN)]"
proof -
  have l: "is_locked alex_locked" by (simp add: alex_locked_def)
  have p: "alex_locked \<in> set (assignments (cr_schedule
              \<lparr>cr_schedule = locked_day, resolution_history = []\<rparr>))"
    by (simp add: locked_day_def add_assignment_def new_schedule_def)
  have c: "changes swap_to_blake = [Swap (Some alex_locked) (Some blake)]"
    by (simp add: swap_to_blake_def)
  from C9_locked_swap [OF l p c, of blank_text] obtain cr' where
    cr': "apply_resolution blank_text swap_to_blake
            \<lparr>cr_schedule = locked_day, resolution_history = []\<rparr> = (True, cr')"
         "assignments (cr_schedule cr') =
            assignments locked_day @ [new_assignment blake (shift alex_locked) (station alex_locked)]"
    by auto
  have a: "assignments locked_day = [alex_locked]"
    by (simp add: locked_day_def add_assignment_def new_schedule_def)
  have m: "map (\<lambda>x. (emp_id (employee x), shift x, station x))
             [alex_locked, new_assignment blake (shift alex_locked) (station alex_locked)] =
           [(''E001'', morning_shift, KITCHEN), (''E002'', morning_shift, KITCHEN)]"
    by (simp add: alex_locked_def new_assignment_def alex_def blake_def)
  have sh: "shift alex_locked = morning_shift" "station alex_locked = KITCHEN"
    by (simp_all add: alex_locked_def new_assignment_def)
  from l p c cr' a m sh show ?thesis by simp
qed

section \<open>Message bus\<close>

lemma broadcast_invoke_all:
  "broadcast call m subs w =
     invoke_all call m (map snd (filter (\<lambda>(n, h). n \<noteq> sender m) subs)) w"
proof (induction subs arbitrary: w)
  case Nil
  then show ?case by simp
next
  case (Cons p subs)
  obtain n h where p: "p = (n, h)" by (cases p)
  show ?case
  proof (cases "n = sender m")
    case True
    with p Cons.IH show ?thesis by simp
  next
    case False
    show ?thesis
    proof (cases "call h m w")
      case (Inl e)
      with p False show ?thesis by simp
    next
      case (Inr w')
      with p False Cons.IH [of w'] show ?thesis by simp
    qed
  qed
qed

lemma invoke_all_returns:
  "(\<forall>h \<in> set hs. \<forall>w0. \<exists>w1. call h m w0 = Inr w1) \<Longrightarrow> \<exists>w'. invoke_all call m hs w = Inr w'"
proof (induction hs arbitrary: w)
  case Nil
  then show ?case by simp
next
  case (Cons h hs)
  from Cons.prems obtain w1 where w1: "call h m w = Inr w1" by (meson list.set_intros(1))
  from Cons.prems have "\<forall>h \<in> set hs. \<forall>w0. \<exists>w1. call h m w0 = Inr w1" by simp
  from Cons.IH [where w=w1, OF this] w1 show ?case by simp
qed

lemma send_bus:
  "message_history (fst (send call m bus w)) = message_history bus @ [m] \<and>
   subscribers (fst (send call m bus w)) = subscribers bus"
  by (simp add: send_def Let_def split: option.splits)

lemma send_broadcast:
  "receiver m = None \<Longrightarrow>
   snd (send call m bus w) =
     invoke_all call m (map snd (filter (\<lambda>(n, h). n \<noteq> sender m) (subscribers bus))) w"
  by (simp add: send_def Let_def broadcast_invoke_all)

lemma send_direct:
  "receiver m = Some r \<Longrightarrow> map_of (subscribers bus) r = Some h \<Longrightarrow>
   snd (send call m bus w) = invoke_all call m [h] w"
  by (simp add: send_def Let_def split: sum.splits)

lemma send_unknown:
  "receiver m = Some r \<Longrightarrow> map_of (subscribers bus) r = None \<Longrightarrow>
   snd (send call m bus w) = Inr w"
  by (simp add: send_def Let_def)

text \<open>
  Claim C7. For every message, every subscriber table and every behaviour of the
  handlers, \<open>send\<close> appends the message to the history and leaves the table as it is.
  A message without receiver is handed, in registration order, to the handler of every
  registered agent whose name is not the sender's; a message to a registered agent is
  handed to that agent's handler and to no other; a message to an unregistered name
  reaches no handler and \<open>send\<close> returns without raising. The calls are made one after
  the other inside \<open>send\<close>, so the state it returns is the one the last handler left;
  when no handler raises, every one of these calls has returned and so does \<open>send\<close>.
\<close>

theorem C7_send:
  "message_history (fst (send call m bus w)) = message_history bus @ [m] \<and>
   subscribers (fst (send call m bus w)) = subscribers bus \<and>
   (receiver m = None \<longrightarrow>
      snd (send call m bus w) =
        invoke_all call m (map snd (filter (\<lambda>(n, h). n \<noteq> sender m) (subscribers bus))) w) \<and>
   (\<forall>r h. receiver m = Some r \<and> map_of (subscribers bus) r = Some h \<longrightarrow>
      snd (send call m bus w) = invoke_all call m [h] w) \<and>
   (\<forall>r. receiver m = Some r \<and> map_of (subscribers bus) r = None \<longrightarrow>
      snd (send call m bus w) = Inr w) \<and>
   ((\<forall>h \<in> snd ` set (subscribers bus). \<forall>w0. \<exists>w1. call h m w0 = Inr w1) \<longrightarrow>
      (\<exists>w'. snd (send call m bus w) = Inr w'))"
proof -
  have ret: "(\<forall>h \<in> snd ` set (subscribers bus). \<forall>w0. \<exists>w1. call h m w0 = Inr w1) \<longrightarrow>
      (\<exists>w'. snd (send call m bus w) = Inr w')"
  proof
    assume tot: "\<forall>h \<in> snd ` set (subscribers bus). \<forall>w0. \<exists>w1. call h m w0 = Inr w1"
    show "\<exists>w'. snd (send call m bus w) = Inr w'"
    proof (cases "receiver m")
      case None
      have "\<forall>h \<in> set (map snd (filter (\<lambda>(n, h). n \<noteq> sender m) (subscribers bus))).
              \<forall>w0. \<exists>w1. call h m w0 = Inr w1"
        using tot by auto
      from invoke_all_returns [where call=call and m=m and w=w, OF this]
           send_broadcast [OF None, of call bus w]
      show ?thesis by simp
    next
      case (Some r)
      show ?thesis
      proof (cases "map_of (subscribers bus) r")
        case None
        from send_unknown [OF Some None, of call w] show ?thesis by simp
      next
        case (Some h)
        then have "(r, h) \<in> set (subscribers bus)" by (rule map_of_SomeD)
        then have "h \<in> snd ` set (subscribers bus)" by force
        with tot obtain w1 where "call h m w = Inr w1" by blast
        with send_direct [OF \<open>receiver m = Some r\<close> Some, of call w] show ?thesis by simp
      qed
    qed
  qed
  from send_bus [of call m bus w] send_broadcast [of m call bus w] send_direct [of m _ bus _ call w]
       send_unknown [of m _ bus call w] ret
  show ?thesis by blast
qed

lemma three_subs:
  "subscribers three_agents =
     [(''Coordinator'', ''on_coordinator''), (''Matcher'', ''on_matcher''),
      (''Validator'', ''on_validator'')]"
  by (simp add: three_agents_def register_def new_message_bus_def Let_def)

theorem C7_send_witness:
  "snd (send log_call (note_from ''Matcher'' None) three_agents []) =
     Inr [''on_coordinator'', ''on_validator''] \<and>
   map_of (subscribers three_agents) ''Validator'' = Some ''on_validator'' \<and>
   snd (send log_call (note_from ''Matcher'' (Some ''Validator'')) three_agents []) =
     Inr [''on_validator''] \<and>
   map_of (subscribers three_agents) ''Approval'' = None \<and>
   snd (send log_call (note_from ''Matcher'' (Some ''Approval'')) three_agents []) = Inr [] \<and>
   message_history (fst (send log_call (note_from ''Matcher'' (Some ''Approval'')) three_agents []))
     = [note_from ''Matcher'' (Some ''Approval'')]"
proof -
  have t: "\<forall>h \<in> snd ` set (subscribers three_agents). \<forall>w0. \<exists>w1.
       log_call h (note_from ''Matcher'' None) w0 = Inr w1"
    by (simp add: log_call_def)
  have r0: "receiver (note_from ''Matcher'' None) = None" by (simp add: note_from_def)
  have s0: "sender (note_from ''Matcher'' None) = ''Matcher''" by (simp add: note_from_def)
  have r1: "receiver (note_from ''Matcher'' (Some ''Validator'')) = Some ''Validator''"
    by (simp add: note_from_def)
  have r2: "receiver (note_from ''Matcher'' (Some ''Approval'')) = Some ''Approval''"
    by (simp add: note_from_def)
  have m1: "map_of (subscribers three_agents) ''Validator'' = Some ''on_validator''"
    by (simp add: three_subs)
  have m2: "map_of (subscribers three_agents) ''Approval'' = None"
    by (simp add: three_subs)
  have h0: "message_history three_agents = []"
    by (simp add: three_agents_def register_def new_message_bus_def Let_def)
  from C7_send [of log_call "note_from ''Matcher'' None" three_agents "[]"] r0
  have a: "snd (send log_call (note_from ''Matcher'' None) three_agents []) =
             Inr [''on_coordinator'', ''on_validator'']"
    by (simp add: three_subs s0 log_call_def)
  from C7_send [of log_call "note_from ''Matcher'' (Some ''Validator'')" three_agents "[]"] r1 m1
  have b: "snd (send log_call (note_from ''Matcher'' (Some ''Validator'')) three_agents []) =
             Inr [''on_validator'']"
    by (simp add: log_call_def)
  from C7_send [of log_call "note_from ''Matcher'' (Some ''Approval'')" three_agents "[]"] r2 m2 h0
  have c: "snd (send log_call (note_from ''Matcher'' (Some ''Approval'')) three_agents []) = Inr [] \<and>
           message_history (fst (send log_call (note_from ''Matcher'' (Some ''Approval''))
                                   three_agents []))
             = [note_from ''Matcher'' (Some ''Approval'')]"
    by simp
  from C7_send [of log_call "note_from ''Matcher'' None" three_agents "[]"] t
  have d: "\<exists>w'. snd (send log_call (note_from ''Matcher'' None) three_agents []) = Inr w'"
    by blast
  from a m1 b m2 c d show ?thesis by blast
qed

section \<open>Weekly maximum in the initial schedule\<close>

lemma week_number_add:
  "get_week_number (Some (add_assignment s a)) d = get_week_number (Some s) d"
  by (simp add: get_week_number_def add_assignment_def)

lemma week_hours_add:
  "week_hours (add_assignment s a) eid w =
     week_hours s eid w +
     (if emp_id (employee a) = eid \<and> get_week_number (Some s) (date (shift a)) = w
      then hours (shift a) else 0)"
proof -
  have "assignments (add_assignment s a) = assignments s @ [a]"
    by (simp add: add_assignment_def)
  then show ?thesis
    by (simp add: week_hours_def week_number_add)
qed

lemma from_code_date: "from_code code d = Some sh \<Longrightarrow> date sh = d"
  by (auto simp: from_code_def split: if_splits option.splits prod.splits)

lemma can_assignD:
  assumes "can_assign st e d code"
  shows "\<exists>sh. from_code code d = Some sh \<and>
          employee_hours st (emp_id e) (get_week_number (Some (sm_schedule st)) d) + hours sh
            \<le> snd (weekly_hours_target e)"
proof (cases "from_code code d")
  case None
  with assms show ?thesis by (simp add: can_assign_def split: if_splits)
next
  case (Some sh)
  with assms have "\<not> employee_hours st (emp_id e) (get_week_number (Some (sm_schedule st)) d)
                      + hours sh > snd (weekly_hours_target e)"
    by (simp add: can_assign_def Let_def split: if_splits)
  with Some show ?thesis by simp
qed

lemma record_assignment_hours:
  "employee_hours (record_assignment e d a st) eid w =
     (if eid = emp_id e \<and> w = get_week_number (Some (sm_schedule st)) d
      then employee_hours st eid w + hours (shift a) else employee_hours st eid w)"
  by (simp add: record_assignment_def Let_def)

lemma record_assignment_fields:
  "sm_schedule (record_assignment e d a st) = sm_schedule st \<and>
   sm_employees (record_assignment e d a st) = sm_employees st"
  by (simp add: record_assignment_def Let_def)

lemma assign_step:
  assumes inv: "hours_tracked employees st"
      and mem: "e \<in> set employees"
      and ids: "distinct (map emp_id employees)"
      and can: "can_assign st e d code"
      and cr: "create_assignment e d code stn = Some a"
  shows "hours_tracked employees
           (record_assignment e d a (st\<lparr>sm_schedule := add_assignment (sm_schedule st) a\<rparr>))"
proof -
  let ?s = "sm_schedule st"
  let ?wk = "get_week_number (Some ?s) d"
  let ?st1 = "st\<lparr>sm_schedule := add_assignment ?s a\<rparr>"
  let ?st2 = "record_assignment e d a ?st1"
  from can_assignD [OF can] obtain sh where
    sh: "from_code code d = Some sh"
        "employee_hours st (emp_id e) ?wk + hours sh \<le> snd (weekly_hours_target e)" by blast
  from cr sh(1) have a: "a = new_assignment e sh stn" by (simp add: create_assignment_def)
  have fa: "employee a = e" "shift a = sh" "date (shift a) = d" "date sh = d"
    using a from_code_date [OF sh(1)] by (simp_all add: new_assignment_def)
  from inv have A: "\<And>eid w. employee_hours st eid w = week_hours ?s eid w"
    unfolding hours_tracked_def by blast
  from inv have B: "\<And>e' w. e' \<in> set employees \<Longrightarrow>
              employee_hours st (emp_id e') w \<le> snd (weekly_hours_target e')"
    unfolding hours_tracked_def by blast
  from inv have C: "sm_employees st = employees"
    unfolding hours_tracked_def by blast
  have wk1: "get_week_number (Some (sm_schedule ?st1)) d = ?wk"
    by (simp add: week_number_add)
  have h2: "\<And>eid w. employee_hours ?st2 eid w =
              (if eid = emp_id e \<and> w = ?wk then employee_hours st eid w + hours sh
               else employee_hours st eid w)"
    by (simp add: record_assignment_hours week_number_add fa)
  have s2: "sm_schedule ?st2 = add_assignment ?s a" "sm_employees ?st2 = employees"
    using C by (simp_all add: record_assignment_fields)
  have A2: "\<forall>eid w. employee_hours ?st2 eid w = week_hours (sm_schedule ?st2) eid w"
  proof (intro allI)
    fix eid w
    have "week_hours (sm_schedule ?st2) eid w =
            week_hours ?s eid w + (if emp_id e = eid \<and> ?wk = w then hours sh else 0)"
      by (simp only: s2 week_hours_add fa)
    also have "\<dots> = employee_hours ?st2 eid w"
      by (simp only: h2 A) auto
    finally show "employee_hours ?st2 eid w = week_hours (sm_schedule ?st2) eid w" by simp
  qed
  have B2: "\<forall>e' \<in> set employees. \<forall>w. employee_hours ?st2 (emp_id e') w
              \<le> snd (weekly_hours_target e')"
  proof (intro ballI allI)
    fix e' w assume e': "e' \<in> set employees"
    show "employee_hours ?st2 (emp_id e') w \<le> snd (weekly_hours_target e')"
    proof (cases "emp_id e' = emp_id e \<and> w = ?wk")
      case True
      from ids have "inj_on emp_id (set employees)" by (simp add: distinct_map)
      with True e' mem have "e' = e" by (auto dest: inj_onD)
      with True sh(2) show ?thesis by (simp only: h2) simp
    next
      case False
      then have "employee_hours ?st2 (emp_id e') w = employee_hours st (emp_id e') w"
        by (simp only: h2) auto
      with B [OF e', of w] show ?thesis by simp
    qed
  qed
  from A2 B2 s2(2) show ?thesis unfolding hours_tracked_def by blast
qed

lemma hours_tracked_draws:
  "hours_tracked employees (st\<lparr>draws := n\<rparr>) = hours_tracked employees st"
  by (simp add: hours_tracked_def)

lemma fill_loop_tracked:
  "hours_tracked employees st \<Longrightarrow> set es \<subseteq> set employees \<Longrightarrow>
   distinct (map emp_id employees) \<Longrightarrow>
   hours_tracked employees (snd (fill_loop d code stn required es filled st))"
proof (induction es arbitrary: filled st)
  case Nil
  then show ?case by simp
next
  case (Cons e es)
  from Cons.prems(2) have mem: "e \<in> set employees" and sub: "set es \<subseteq> set employees"
    by simp_all
  show ?case
  proof (cases "filled \<ge> required")
    case True
    with Cons.prems(1) show ?thesis by simp
  next
    case nf: False
    show ?thesis
    proof (cases "can_assign st e d code")
      case False
      with nf Cons.IH [OF Cons.prems(1) sub Cons.prems(3), of filled] show ?thesis by simp
    next
      case can: True
      show ?thesis
      proof (cases "create_assignment e d code stn")
        case None
        with nf can Cons.IH [OF Cons.prems(1) sub Cons.prems(3), of filled] show ?thesis by simp
      next
        case (Some a)
        let ?st2 = "record_assignment e d a (st\<lparr>sm_schedule := add_assignment (sm_schedule st) a\<rparr>)"
        have "hours_tracked employees ?st2"
          by (rule assign_step [OF Cons.prems(1) mem Cons.prems(3) can Some])
        from Cons.IH [OF this sub Cons.prems(3), of "filled + 1"] nf can Some
        show ?thesis by simp
      qed
    qed
  qed
qed

lemma generate_bid_state:
  "snd (generate_employee_bid rnd st e d code stn) = st\<lparr>draws := draws st + 1\<rparr>"
  by (simp add: generate_employee_bid_def Let_def split: prod.splits)

lemma candidate_score_state:
  "snd (calculate_candidate_score rnd st e d code stn) = st\<lparr>draws := draws st + 1\<rparr>"
proof -
  obtain b st1 where g: "generate_employee_bid rnd st e d code stn = (b, st1)"
    by (cases "generate_employee_bid rnd st e d code stn")
  with generate_bid_state [of rnd st e d code stn] have "st1 = st\<lparr>draws := draws st + 1\<rparr>"
    by simp
  with g show ?thesis by (simp add: calculate_candidate_score_def)
qed

lemma collect_candidates_sound:
  "\<exists>n. snd (collect_candidates rnd d code stn es acc st) = st\<lparr>draws := n\<rparr> \<and>
       snd ` set (fst (collect_candidates rnd d code stn es acc st)) \<subseteq> snd ` set acc \<union> set es"
proof (induction es arbitrary: acc st)
  case Nil
  have "st = st\<lparr>draws := draws st\<rparr>" by simp
  then show ?case by (metis collect_candidates.simps(1) fst_conv snd_conv sup_ge1)
next
  case (Cons e es)
  show ?case
  proof (cases "\<not> is_available e d code \<or> is_employee_assigned (sm_schedule st) (emp_id e) d
                \<or> \<not> can_work_station e stn")
    case True
    then have eq: "collect_candidates rnd d code stn (e # es) acc st =
                   collect_candidates rnd d code stn es acc st" by auto
    from Cons.IH [of acc st] obtain n where
      n: "snd (collect_candidates rnd d code stn es acc st) = st\<lparr>draws := n\<rparr>"
         "snd ` set (fst (collect_candidates rnd d code stn es acc st)) \<subseteq> snd ` set acc \<union> set es"
      by blast
    from n(2) have "snd ` set (fst (collect_candidates rnd d code stn es acc st))
                      \<subseteq> snd ` set acc \<union> set (e # es)" by auto
    with n(1) eq show ?thesis by auto
  next
    case False
    obtain sc st1 where c: "calculate_candidate_score rnd st e d code stn = (sc, st1)"
      by (cases "calculate_candidate_score rnd st e d code stn")
    with candidate_score_state [of rnd st e d code stn]
    have st1: "st1 = st\<lparr>draws := draws st + 1\<rparr>" by simp
    from False c have eq: "collect_candidates rnd d code stn (e # es) acc st =
                   collect_candidates rnd d code stn es (acc @ [(sc, e)]) st1" by simp
    from Cons.IH [of "acc @ [(sc, e)]" st1] obtain n where
      n: "snd (collect_candidates rnd d code stn es (acc @ [(sc, e)]) st1) = st1\<lparr>draws := n\<rparr>"
         "snd ` set (fst (collect_candidates rnd d code stn es (acc @ [(sc, e)]) st1))
            \<subseteq> snd ` set (acc @ [(sc, e)]) \<union> set es"
      by blast
    from n(1) st1 have a: "snd (collect_candidates rnd d code stn es (acc @ [(sc, e)]) st1)
                             = st\<lparr>draws := n\<rparr>" by simp
    from n(2) have b: "snd ` set (fst (collect_candidates rnd d code stn es (acc @ [(sc, e)]) st1))
            \<subseteq> snd ` set acc \<union> set (e # es)" by auto
    from a b eq show ?thesis by auto
  qed
qed

lemma ranked_candidates_sound:
  "\<exists>n. snd (get_ranked_candidates rnd d code stn st) = st\<lparr>draws := n\<rparr> \<and>
       set (fst (get_ranked_candidates rnd d code stn st)) \<subseteq> set (sm_employees st)"
proof -
  obtain cs st1 where c: "collect_candidates rnd d code stn (sm_employees st) [] st = (cs, st1)"
    by (cases "collect_candidates rnd d code stn (sm_employees st) [] st")
  from collect_candidates_sound [of rnd d code stn "sm_employees st" "[]" st] c obtain n where
    n: "st1 = st\<lparr>draws := n\<rparr>" "snd ` set cs \<subseteq> set (sm_employees st)" by auto
  have "get_ranked_candidates rnd d code stn st = (map snd (sort_key (\<lambda>c. - fst c) cs), st1)"
    using c by (simp add: get_ranked_candidates_def)
  with n show ?thesis by auto
qed

lemma fill_station_shift_tracked:
  assumes inv: "hours_tracked employees st" and ids: "distinct (map emp_id employees)"
  shows "hours_tracked employees (snd (fill_station_shift rnd d code stn required st))"
proof -
  obtain cands st1 where c: "get_ranked_candidates rnd d code stn st = (cands, st1)"
    by (cases "get_ranked_candidates rnd d code stn st")
  from ranked_candidates_sound [of rnd d code stn st] c obtain n where
    n: "st1 = st\<lparr>draws := n\<rparr>" "set cands \<subseteq> set (sm_employees st)" by auto
  from inv have "sm_employees st = employees" unfolding hours_tracked_def by blast
  with n(2) have sub: "set cands \<subseteq> set employees" by simp
  from inv n(1) have inv1: "hours_tracked employees st1" by (simp add: hours_tracked_draws)
  have "fill_station_shift rnd d code stn required st = fill_loop d code stn required cands 0 st1"
    using c by (simp add: fill_station_shift_def)
  with fill_loop_tracked [OF inv1 sub ids, of d code stn required 0] show ?thesis by simp
qed

lemma fill_stations_tracked:
  "hours_tracked employees st \<Longrightarrow> distinct (map emp_id employees) \<Longrightarrow>
   hours_tracked employees (fill_stations rnd d code reqs stns st)"
proof (induction stns arbitrary: st)
  case Nil
  then show ?case by simp
next
  case (Cons stn rest)
  let ?req = "dict_get reqs (Station_value stn) 0"
  let ?st1 = "if ?req > 0 then snd (fill_station_shift rnd d code stn ?req st) else st"
  have "hours_tracked employees ?st1"
    using Cons.prems fill_station_shift_tracked [OF Cons.prems(1) Cons.prems(2), of rnd d code stn ?req]
    by simp
  from Cons.IH [OF this Cons.prems(2)] show ?case by (simp add: Let_def)
qed

lemma match_codes_tracked:
  "hours_tracked employees st \<Longrightarrow> distinct (map emp_id employees) \<Longrightarrow>
   hours_tracked employees (match_codes rnd d reqs stns codes st)"
proof (induction codes arbitrary: st)
  case Nil
  then show ?case by simp
next
  case (Cons code rest)
  have "hours_tracked employees (fill_stations rnd d code (dict_get reqs code Map.empty) stns st)"
    by (rule fill_stations_tracked [OF Cons.prems])
  from Cons.IH [OF this Cons.prems(2)] show ?case by simp
qed

lemma match_day_tracked:
  "hours_tracked employees st \<Longrightarrow> distinct (map emp_id employees) \<Longrightarrow>
   hours_tracked employees (match_day rnd d st)"
  unfolding match_day_def Let_def by (rule match_codes_tracked)

lemma match_days_tracked:
  "hours_tracked employees st \<Longrightarrow> distinct (map emp_id employees) \<Longrightarrow>
   hours_tracked employees (match_days rnd d0 d1 st)"
proof (induction rnd d0 d1 st rule: match_days.induct)
  case (1 rnd current_date last_date st)
  show ?case
  proof (cases "current_date \<le> last_date")
    case True
    have "hours_tracked employees (match_day rnd current_date st)"
      by (rule match_day_tracked [OF "1.prems"])
    from "1.IH" [OF True this "1.prems"(2)] True show ?thesis by simp
  next
    case False
    with "1.prems"(1) show ?thesis by simp
  qed
qed


lemma initial_tracked:
  assumes "\<forall>e \<in> set employees. 0 \<le> snd (weekly_hours_target e)"
  shows "hours_tracked employees
           \<lparr>sm_schedule = new_schedule d0 d1 sid, sm_employees = employees, sm_store = store,
            demand_forecast = forecast, employee_hours = (\<lambda>eid week_num. 0),
            daily_assignments = Map.empty, draws = 0\<rparr>"
  using assms by (simp add: hours_tracked_def week_hours_def new_schedule_def)

lemma can_assign_boundary:
  assumes "is_available e d code"
      and "\<not> is_employee_assigned (sm_schedule st) (emp_id e) d"
      and "from_code code d = Some sh"
      and "check_rest_period st e sh"
  shows "can_assign st e d code =
           (employee_hours st (emp_id e) (get_week_number (Some (sm_schedule st)) d) + hours sh
              \<le> snd (weekly_hours_target e))"
  using assms by (auto simp: can_assign_def Let_def)

text \<open>
  Claim C10. For employees with distinct ids and non-negative weekly maximum, whatever
  the store, the forecast, the period and the random draws, in the schedule returned by
  \<open>execute\<close> the hours assigned to an employee in any week of the schedule are at most
  the employee's weekly maximum. The feasibility check, where availability, the
  one-shift-a-day rule and the rest period allow the shift, accepts exactly when the
  hours so far plus the shift's hours are at most the maximum: a total equal to the
  maximum is accepted, only a larger one is rejected.
\<close>

theorem C10_weekly_maximum:
  assumes ids: "distinct (map emp_id employees)"
      and nonneg: "\<forall>e \<in> set employees. 0 \<le> snd (weekly_hours_target e)"
  shows "(\<forall>e \<in> set employees. \<forall>w.
            week_hours (execute rnd employees store forecast d0 d1) (emp_id e) w
              \<le> snd (weekly_hours_target e)) \<and>
         (\<forall>st e d code sh.
            is_available e d code \<and> \<not> is_employee_assigned (sm_schedule st) (emp_id e) d \<and>
            from_code code d = Some sh \<and> check_rest_period st e sh \<longrightarrow>
            can_assign st e d code =
              (employee_hours st (emp_id e) (get_week_number (Some (sm_schedule st)) d) + hours sh
                 \<le> snd (weekly_hours_target e)))"
proof -
  let ?st0 = "\<lparr>sm_schedule = new_schedule d0 d1 (store_ident store), sm_employees = employees,
              sm_store = store, demand_forecast = forecast,
              employee_hours = (\<lambda>eid week_num. 0), daily_assignments = Map.empty, draws = 0\<rparr>"
  let ?st = "match_days rnd d0 d1 ?st0"
  have "hours_tracked employees ?st"
    by (rule match_days_tracked [OF initial_tracked [OF nonneg] ids])
  then have A: "\<And>eid w. employee_hours ?st eid w = week_hours (sm_schedule ?st) eid w"
    and B: "\<And>e w. e \<in> set employees \<Longrightarrow>
              employee_hours ?st (emp_id e) w \<le> snd (weekly_hours_target e)"
    unfolding hours_tracked_def by blast+
  have first: "\<forall>e \<in> set employees. \<forall>w.
            week_hours (execute rnd employees store forecast d0 d1) (emp_id e) w
              \<le> snd (weekly_hours_target e)"
  proof (intro ballI allI)
    fix e w assume "e \<in> set employees"
    from B [OF this, of w] A [of "emp_id e" w]
    show "week_hours (execute rnd employees store forecast d0 d1) (emp_id e) w
            \<le> snd (weekly_hours_target e)"
      by (simp add: execute_def)
  qed
  from first can_assign_boundary show ?thesis by blast
qed

lemma casey_run:
  "map (\<lambda>a. (emp_id (employee a), date (shift a), hours (shift a)))
       (assignments (execute no_jitter [casey] kitchen_store one_opener 739000 739002)) =
   [(''E003'', 739000, 9), (''E003'', 739001, 9)]"
  by code_simp

lemma casey_week:
  "week_hours (execute no_jitter [casey] kitchen_store one_opener 739000 739002) ''E003'' 0 = 18"
  by code_simp

theorem C10_weekly_maximum_witness:
  "distinct (map emp_id [casey]) \<and>
   0 \<le> snd (weekly_hours_target casey) \<and>
   map (\<lambda>a. (emp_id (employee a), date (shift a), hours (shift a)))
       (assignments (execute no_jitter [casey] kitchen_store one_opener 739000 739002)) =
     [(''E003'', 739000, 9), (''E003'', 739001, 9)] \<and>
   week_hours (execute no_jitter [casey] kitchen_store one_opener 739000 739002) ''E003'' 0 = 18 \<and>
   week_hours (execute no_jitter [casey] kitchen_store one_opener 739000 739002) ''E003'' 0
     \<le> snd (weekly_hours_target casey) \<and>
   snd (weekly_hours_target casey) = 18"
proof -
  have d: "distinct (map emp_id [casey])" by simp
  have n: "\<forall>e \<in> set [casey]. 0 \<le> snd (weekly_hours_target e)" by (simp add: casey_def)
  have i: "emp_id casey = ''E003''" "snd (weekly_hours_target casey) = 18" by (simp_all add: casey_def)
  from C10_weekly_maximum [OF d n, of no_jitter kitchen_store one_opener 739000 739002] i
  have "week_hours (execute no_jitter [casey] kitchen_store one_opener 739000 739002) ''E003'' 0
          \<le> snd (weekly_hours_target casey)"
    by (metis list.set_intros(1))
  with d n i casey_run casey_week show ?thesis by simp
qed

end
